theory Spec2Isabelle
  imports Complex_Main "HOL-Library.Multiset"
begin

section \<open>The typing test manager (typingTest.js)\<close>

text \<open>
  The class \<^verbatim>\<open>TypingTestManager\<close> is embedded as a record of its fields and one
  HOL function per method, each taking the manager and returning the updated manager.
  Conventions of the embedding:
  \<^item> JavaScript strings are lists of characters; \<^verbatim>\<open>s[i]\<close> is \<open>charAt\<close>, which is
    \<open>None\<close> (\<^verbatim>\<open>undefined\<close>) outside the string, as in JavaScript.
  \<^item> The counters are JavaScript numbers that only ever hold integers: they are \<open>int\<close>.
    \<^verbatim>\<open>config.time\<close> is the result of \<^verbatim>\<open>parseInt\<close> in app.js: an \<open>int\<close> of minutes.
  \<^item> Quotients (words per minute, accuracy, progress) are computed in exact rational
    arithmetic; a division by zero yields \<open>Infinity\<close> or \<open>NaN\<close> as in JavaScript.
  \<^item> \<^verbatim>\<open>Date.now()\<close> is the parameter \<open>now\<close> of each method (milliseconds), read once per
    call. \<^verbatim>\<open>Math.random()\<close> is a parameter as well: the sequence of values it returns.
  \<^item> \<^verbatim>\<open>this.timer\<close> records only whether an interval is registered.
  \<^item> Calls of the assignable callbacks and of \<^verbatim>\<open>console.log\<close> are appended to the field
    \<open>effects\<close>, oldest first; a callback is invoked only when one is assigned.
  \<^item> The text display element is write-only markup and is left out.

  The specification renames the fields: its \<^verbatim>\<open>targetText\<close> is \<^verbatim>\<open>currentText\<close>,
  \<^verbatim>\<open>typedPrefixLength\<close> is \<^verbatim>\<open>currentPosition\<close>, \<^verbatim>\<open>correctCharCount\<close> is \<^verbatim>\<open>correctChars\<close>,
  \<^verbatim>\<open>totalKeystrokeCount\<close> is \<^verbatim>\<open>totalChars\<close>, \<^verbatim>\<open>errorCount\<close> is \<^verbatim>\<open>errors\<close>,
  \<^verbatim>\<open>remainingSeconds\<close> is \<^verbatim>\<open>timeRemaining\<close>, \<^verbatim>\<open>durationSeconds\<close> is \<^verbatim>\<open>config.time * 60\<close>, and
  its \<^verbatim>\<open>submitKeystroke\<close> is \<^verbatim>\<open>handleInput\<close>.
\<close>

subsection \<open>Data\<close>

record config =
  difficulty :: string
  mode :: string
  language :: string
  time :: int

record config_patch =
  new_difficulty :: "string option"
  new_mode :: "string option"
  new_language :: "string option"
  new_time :: "int option"

record pool =
  words :: "string list"
  sentences :: "string list"

record state =
  isActive :: bool
  isPaused :: bool
  startTime :: "int option"
  endTime :: "int option"
  timeRemaining :: int
  currentText :: string
  typedText :: string
  currentPosition :: nat
  errors :: int
  totalChars :: int
  correctChars :: int

datatype number = Num rat | Infinity | NaN

record stats =
  wpm :: rat
  accuracy :: rat
  statsTimeRemaining :: int
  timeElapsed :: rat
  charactersTyped :: nat
  statsCorrectChars :: int
  statsErrors :: int
  statsTotalChars :: int
  progress :: number

datatype effect =
    Log string
  | LogConfigured config
  | LogCompleted stats
  | StatsUpdate stats
  | Complete stats
  | CorrectKey
  | IncorrectKey

record input_element =
  input_value :: string
  input_disabled :: bool

record manager =
  config :: config
  state :: state
  timer :: bool
  onStatsUpdate :: bool
  onComplete :: bool
  onCorrectKey :: bool
  onIncorrectKey :: bool
  typingInput :: "input_element option"
  effects :: "effect list"

subsection \<open>The content library\<close>

text \<open>
  \<^verbatim>\<open>this.contentData\<close> is assigned once in the constructor and never written again, so
  it is a constant. A lookup \<^verbatim>\<open>table[key] || fallback\<close> is \<open>map_of\<close> with a default.
\<close>

definition difficulties :: "(string \<times> pool) list" where
  "difficulties =
     [(''easy'',
       \<lparr> words = [''cat'', ''dog'', ''run'', ''fun'', ''sun'', ''hat'', ''bat'', ''mat'', ''car'',
                  ''bar'', ''toy'', ''boy'', ''joy'', ''day'', ''way'', ''say'', ''may'', ''ray'',
                  ''key'', ''see''],
         sentences = [''The cat runs fast.'', ''Dogs like to play.'', ''Sun is very bright.'',
                      ''I love to read books.'', ''Birds fly in the sky.''] \<rparr>),
      (''normal'',
       \<lparr> words = [''keyboard'', ''typing'', ''practice'', ''accuracy'', ''speed'', ''computer'',
                  ''pacman'', ''arcade'', ''challenge'', ''improve'', ''exercise'', ''rhythm'',
                  ''finger'', ''position''],
         sentences = [''Practice makes perfect typing.'', ''Arcade games are really fun.'',
                      ''Typing speed improves with time.'',
                      ''Focus on accuracy first, then speed.''] \<rparr>),
      (''hard'',
       \<lparr> words = [''algorithm'', ''efficiency'', ''performance'', ''optimization'',
                  ''sophisticated'', ''implementation'', ''architecture'', ''methodology'',
                  ''comprehensive'', ''fundamental''],
         sentences = [''Algorithm efficiency determines program performance.'',
                      ''Sophisticated implementations require careful optimization.'',
                      ''Comprehensive testing ensures reliable software architecture.''] \<rparr>),
      (''expert'',
       \<lparr> words = [''asynchronous'', ''polymorphism'', ''encapsulation'', ''abstraction'',
                  ''inheritance'', ''composition'', ''instantiation'', ''serialization'',
                  ''multithreading'', ''concurrency''],
         sentences = [''Asynchronous programming improves application responsiveness.'',
                      ''Polymorphism enables flexible object-oriented design patterns.'',
                      ''Encapsulation provides data security and code maintainability.''] \<rparr>),
      (''advanced'',
       \<lparr> words = [''metaprogramming'', ''concurrency'', ''serialization'', ''deserialization'',
                  ''multithreading'', ''parallelization'', ''synchronization'', ''virtualization'',
                  ''containerization'', ''orchestration''],
         sentences = [''Metaprogramming techniques enable dynamic code generation.'',
                      ''Concurrency management prevents race condition vulnerabilities.'',
                      ''Containerization simplifies application deployment and scaling.''] \<rparr>)]"

definition code_snippets :: "(string \<times> string list) list" where
  \<open>code_snippets =
     [(''python'',
       [''def calculate_wpm(chars, time):\<newline>    return (chars / 5) / (time / 60)'',
        ''for i in range(10):\<newline>    print(f'Number: {i}')'',
        ''class PacMan:\<newline>    def __init__(self, x, y):\<newline>        self.x = x\<newline>        self.y = y'',
        ''import pygame\<newline>from typing import List, Tuple'',
        ''result = [x**2 for x in range(5) if x % 2 == 0]'']),
      (''javascript'',
       [''function calculateWPM(chars, time) {\<newline>  return (chars / 5) / (time / 60);\<newline>}'',
        ''const pacman = { x: 0, y: 0, direction: 'right' };'',
        ''for (let i = 0; i < 10; i++) {\<newline>  console.log(`Number: ${i}`);\<newline>}'',
        ''const canvas = document.getElementById('gameCanvas');\<newline>const ctx = canvas.getContext('2d');'',
        ''setTimeout(() => {\<newline>  console.log('Game started!');\<newline>}, 1000);'']),
      (''cpp'',
       [''#include <iostream>\<newline>#include <vector>\<newline>using namespace std;'',
        ''class PacMan {\<newline>private:\<newline>  int x, y;\<newline>public:\<newline>  PacMan(int startX, int startY);\<newline>};'',
        ''for (int i = 0; i < 10; ++i) {\<newline>  cout << "Number: " << i << endl;\<newline>}'',
        ''vector<int> scores = {100, 200, 300};\<newline>sort(scores.begin(), scores.end());'',
        ''auto lambda = [](int a, int b) { return a + b; };'']),
      (''java'',
       [''public class PacMan {\<newline>  private int x, y;\<newline>  public PacMan(int x, int y) {\<newline>    this.x = x; this.y = y;\<newline>  }\<newline>}'',
        ''List<Integer> scores = new ArrayList<>();\<newline>scores.add(100);'',
        ''for (int i = 0; i < 10; i++) {\<newline>  System.out.println("Number: " + i);\<newline>}'',
        ''Map<String, Integer> gameStats = new HashMap<>();'',
        ''try {\<newline>  // Game logic here\<newline>} catch (Exception e) {\<newline>  e.printStackTrace();\<newline>}''])]\<close>

text \<open>
  A value returned by \<^verbatim>\<open>Math.random()\<close>: a number \<open>r\<close> with \<open>0 \<le> r < 1\<close>. The
  parameter \<open>rnd\<close> of the functions below is the sequence of values that the successive
  calls return.
\<close>

typedef random = "{r :: rat. 0 \<le> r \<and> r < 1}"
  by (rule exI [of _ 0]) simp

definition randomIndex :: "random \<Rightarrow> nat \<Rightarrow> nat" where
  "randomIndex r n = nat \<lfloor>Rep_random r * of_nat n\<rfloor>"

subsection \<open>The constructor\<close>

definition TypingTestManager :: manager where
  "TypingTestManager =
     \<lparr> config = \<lparr> difficulty = ''normal'', mode = ''words'',
                   language = ''javascript'', time = 3 \<rparr>,
       state = \<lparr> isActive = False, isPaused = False, startTime = None, endTime = None,
                  timeRemaining = 0, currentText = [], typedText = [],
                  currentPosition = 0, errors = 0, totalChars = 0, correctChars = 0 \<rparr>,
       timer = False,
       onStatsUpdate = False, onComplete = False,
       onCorrectKey = False, onIncorrectKey = False,
       typingInput = None,
       effects = [] \<rparr>"

definition init :: "input_element option \<Rightarrow> manager \<Rightarrow> manager" where
  "init el m =
     (m\<lparr> typingInput := el \<rparr>)\<lparr> effects := effects m @ [Log ''Typing Test Manager initialized''] \<rparr>"

subsection \<open>Helpers for JavaScript primitives\<close>

definition charAt :: "string \<Rightarrow> int \<Rightarrow> char option" where
  "charAt s i = (if 0 \<le> i \<and> i < int (length s) then Some (s ! nat i) else None)"

definition emit :: "effect \<Rightarrow> manager \<Rightarrow> manager" where
  "emit e m = m\<lparr> effects := effects m @ [e] \<rparr>"

definition setDisabled :: "bool \<Rightarrow> manager \<Rightarrow> manager" where
  "setDisabled b m =
     (case typingInput m of
        None \<Rightarrow> m
      | Some el \<Rightarrow> m\<lparr> typingInput := Some (el\<lparr> input_disabled := b \<rparr>) \<rparr>)"

definition js_divide :: "nat \<Rightarrow> nat \<Rightarrow> number" where
  "js_divide a b =
     (if b = 0 then (if a = 0 then NaN else Infinity) else Num (of_nat a / of_nat b))"

fun js_times :: "number \<Rightarrow> rat \<Rightarrow> number" where
  "js_times (Num x) k = Num (x * k)"
| "js_times Infinity k = (if k = 0 then NaN else Infinity)"
| "js_times NaN k = NaN"

subsection \<open>Metrics\<close>

definition getProgress :: "manager \<Rightarrow> number" where
  "getProgress m =
     js_times (js_divide (currentPosition (state m)) (length (currentText (state m)))) 100"

definition calculateStats :: "int \<Rightarrow> manager \<Rightarrow> stats" where
  "calculateStats now m =
     (let timeElapsed =
            (case startTime (state m) of
               None \<Rightarrow> 0
             | Some t \<Rightarrow> if t = 0 then 0 else (of_int (now - t) :: rat) / 1000);
          minutes = max (timeElapsed / 60) (1 / 60);
          wpm = (of_int (correctChars (state m)) / 5) / minutes;
          accuracy =
            (if totalChars (state m) > 0
             then (of_int (correctChars (state m)) / of_int (totalChars (state m))) * 100
             else 100)
      in \<lparr> wpm = max 0 wpm,
           accuracy = max 0 (min 100 accuracy),
           statsTimeRemaining = max 0 (timeRemaining (state m)),
           timeElapsed = timeElapsed,
           charactersTyped = currentPosition (state m),
           statsCorrectChars = correctChars (state m),
           statsErrors = errors (state m),
           statsTotalChars = totalChars (state m),
           progress =
             js_times (js_divide (currentPosition (state m)) (length (currentText (state m)))) 100 \<rparr>)"

definition updateStats :: "int \<Rightarrow> manager \<Rightarrow> manager" where
  "updateStats now m =
     (if onStatsUpdate m then emit (StatsUpdate (calculateStats now m)) m else m)"

subsection \<open>Text generation\<close>

text \<open>
  The two \<^verbatim>\<open>while\<close> loops of \<^verbatim>\<open>generateTestText\<close>. The loop state is the number of
  calls of \<^verbatim>\<open>Math.random()\<close> made so far, the sentences not yet drawn (first loop only),
  \<^verbatim>\<open>currentLength\<close> and \<^verbatim>\<open>textParts\<close>. \<^verbatim>\<open>sentences.splice(i, 1)[0]\<close> removes and returns the
  element at \<open>i\<close>.
\<close>

function addSentences ::
  "(nat \<Rightarrow> random) \<Rightarrow> int \<Rightarrow> nat \<times> string list \<times> int \<times> string list
     \<Rightarrow> nat \<times> string list \<times> int \<times> string list" where
  "addSentences rnd targetChars (k, pending, currentLength, textParts) =
     (if (of_int currentLength :: rat) < of_int targetChars * (6 / 10) \<and> length pending > 0
      then
        let i = randomIndex (rnd k) (length pending);
            sentence = pending ! i
        in addSentences rnd targetChars
             (Suc k, take i pending @ drop (Suc i) pending,
              currentLength + int (length sentence) + 1, textParts @ [sentence])
      else (k, pending, currentLength, textParts))"
  by pat_completeness auto
termination
proof (relation "measure (\<lambda>(rnd, targetChars, k, pending, currentLength, textParts).
                   length pending)", goal_cases)
  case 1
  show ?case by simp
next
  case (2 rnd targetChars k pending currentLength textParts i sentence)
  have r: "0 \<le> Rep_random (rnd k)" "Rep_random (rnd k) < 1"
    using Rep_random [of "rnd k"] by auto
  have pos: "length pending > 0"
    using 2 by simp
  have "Rep_random (rnd k) * of_nat (length pending) < of_nat (length pending)"
    using r pos by simp
  then have "\<lfloor>Rep_random (rnd k) * of_nat (length pending)\<rfloor> < int (length pending)"
    by (simp add: floor_less_iff)
  moreover have "0 \<le> \<lfloor>Rep_random (rnd k) * of_nat (length pending)\<rfloor>"
    using r by simp
  ultimately have "i < length pending"
    using 2 by (simp add: randomIndex_def nat_less_iff)
  then show ?case
    by simp
qed

function addWords ::
  "(nat \<Rightarrow> random) \<Rightarrow> int \<Rightarrow> string list \<Rightarrow> nat \<times> int \<times> string list
     \<Rightarrow> nat \<times> int \<times> string list" where
  "addWords rnd targetChars wordList (k, currentLength, textParts) =
     (if currentLength < targetChars \<and> length wordList > 0
      then
        let word = wordList ! randomIndex (rnd k) (length wordList)
        in addWords rnd targetChars wordList
             (Suc k, currentLength + int (length word) + 1, textParts @ [word])
      else (k, currentLength, textParts))"
  by pat_completeness auto
termination
  by (relation "measure (\<lambda>(rnd, targetChars, wordList, k, currentLength, textParts).
                  nat (targetChars - currentLength))") auto

text \<open>The loop equations are unfolded by hand, never by the simplifier.\<close>

declare addSentences.simps [simp del]
declare addWords.simps [simp del]

text \<open>\<^verbatim>\<open>textParts.join(' ')\<close>\<close>

fun join :: "string list \<Rightarrow> string" where
  "join [] = []"
| "join [p] = p"
| "join (p # q # ps) = p @ '' '' @ join (q # ps)"

definition generateTestText :: "(nat \<Rightarrow> random) \<Rightarrow> manager \<Rightarrow> manager" where
  "generateTestText rnd m =
     (let text =
        (if mode (config m) = ''code''
         then
           let snippets =
                 (case map_of code_snippets (language (config m)) of
                    Some l \<Rightarrow> l
                  | None \<Rightarrow> the (map_of code_snippets ''javascript''))
           in snippets ! randomIndex (rnd 0) (length snippets)
         else
           let level =
                 (case map_of difficulties (difficulty (config m)) of
                    Some d \<Rightarrow> d
                  | None \<Rightarrow> the (map_of difficulties ''normal''));
               targetWPM = 40;
               targetWords = targetWPM * time (config m);
               targetChars = targetWords * 5;
               (k1, rest, length1, parts1) =
                 addSentences rnd targetChars (0, sentences level, 0, []);
               (k2, length2, parts2) =
                 addWords rnd targetChars (words level) (k1, length1, parts1)
           in join parts2)
      in m\<lparr> state := (state m)\<lparr> currentText := text \<rparr> \<rparr>)"

definition merge :: "config \<Rightarrow> config_patch \<Rightarrow> config" where
  "merge c p =
     \<lparr> difficulty = (case new_difficulty p of None \<Rightarrow> difficulty c | Some v \<Rightarrow> v),
       mode = (case new_mode p of None \<Rightarrow> mode c | Some v \<Rightarrow> v),
       language = (case new_language p of None \<Rightarrow> language c | Some v \<Rightarrow> v),
       time = (case new_time p of None \<Rightarrow> time c | Some v \<Rightarrow> v) \<rparr>"

subsection \<open>Timer and lifecycle\<close>

definition clearTimer :: "manager \<Rightarrow> manager" where
  "clearTimer m = (if timer m then m\<lparr> timer := False \<rparr> else m)"

definition startTimer :: "manager \<Rightarrow> manager" where
  "startTimer m = (clearTimer m)\<lparr> timer := True \<rparr>"

definition resetState :: "manager \<Rightarrow> manager" where
  "resetState m =
     clearTimer
       ((case typingInput m of
           None \<Rightarrow> (\<lambda>m. m)
         | Some el \<Rightarrow>
             (\<lambda>m. m\<lparr> typingInput := Some (el\<lparr> input_value := [], input_disabled := False \<rparr>) \<rparr>))
        (m\<lparr> state := (state m)\<lparr> isActive := False, isPaused := False,
                                 startTime := None, endTime := None,
                                 timeRemaining := time (config m) * 60,
                                 typedText := [], currentPosition := 0,
                                 errors := 0, totalChars := 0, correctChars := 0 \<rparr> \<rparr>))"

definition start :: "int \<Rightarrow> manager \<Rightarrow> manager" where
  "start now m =
     emit (Log ''Typing test started'')
       (updateStats now
          (startTimer
             (m\<lparr> state := (state m)\<lparr> isActive := True, isPaused := False,
                                      startTime := Some now \<rparr> \<rparr>)))"

definition pause :: "manager \<Rightarrow> manager" where
  "pause m =
     emit (Log ''Typing test paused'')
       (setDisabled True (clearTimer (m\<lparr> state := (state m)\<lparr> isPaused := True \<rparr> \<rparr>)))"

definition resume :: "manager \<Rightarrow> manager" where
  "resume m =
     emit (Log ''Typing test resumed'')
       (setDisabled False (startTimer (m\<lparr> state := (state m)\<lparr> isPaused := False \<rparr> \<rparr>)))"

definition stop :: "int \<Rightarrow> manager \<Rightarrow> manager" where
  "stop now m =
     emit (Log ''Typing test stopped'')
       (setDisabled True
          (clearTimer (m\<lparr> state := (state m)\<lparr> isActive := False, endTime := Some now \<rparr> \<rparr>)))"

definition configure :: "config_patch \<Rightarrow> (nat \<Rightarrow> random) \<Rightarrow> manager \<Rightarrow> manager" where
  "configure p rnd m =
     (let m1 = resetState (generateTestText rnd (m\<lparr> config := merge (config m) p \<rparr>))
      in emit (LogConfigured (config m1)) m1)"

definition reset :: "int \<Rightarrow> (nat \<Rightarrow> random) \<Rightarrow> manager \<Rightarrow> manager" where
  "reset now rnd m =
     emit (Log ''Typing test reset'') (generateTestText rnd (resetState (stop now m)))"

definition completeTest :: "int \<Rightarrow> manager \<Rightarrow> manager" where
  "completeTest now m =
     (let m1 = stop now m;
          results = calculateStats now m1;
          m2 = (if onComplete m1 then emit (Complete results) m1 else m1)
      in emit (LogCompleted results) m2)"

definition timerCallback :: "int \<Rightarrow> manager \<Rightarrow> manager" where
  "timerCallback now m =
     (if \<not> isPaused (state m) \<and> isActive (state m)
      then (let m1 = m\<lparr> state := (state m)\<lparr> timeRemaining := timeRemaining (state m) - 1 \<rparr> \<rparr>
            in if timeRemaining (state m1) \<le> 0 then completeTest now m1
               else updateStats now m1)
      else m)"

text \<open>
  The browser side of \<^verbatim>\<open>setInterval\<close>: when a second has elapsed, the callback runs if
  and only if an interval is still registered.
\<close>

definition intervalElapsed :: "int \<Rightarrow> manager \<Rightarrow> manager" where
  "intervalElapsed now m = (if timer m then timerCallback now m else m)"

subsection \<open>Keystrokes\<close>

definition handleInput :: "int \<Rightarrow> string \<Rightarrow> manager \<Rightarrow> manager" where
  "handleInput now inputValue m =
     (if \<not> isActive (state m) \<or> isPaused (state m) then m
      else
        let inputLength = length inputValue in
        if inputLength < length (typedText (state m))
        then updateStats now
               (m\<lparr> state := (state m)\<lparr> typedText := inputValue,
                                        currentPosition := inputLength \<rparr> \<rparr>)
        else
          let newChar = charAt inputValue (int inputLength - 1);
              expectedChar = charAt (currentText (state m)) (int (currentPosition (state m)));
              m1 = m\<lparr> state := (state m)\<lparr> totalChars := totalChars (state m) + 1 \<rparr> \<rparr>
          in
          if newChar = expectedChar
          then
            let m2 = m1\<lparr> state := (state m1)\<lparr> correctChars := correctChars (state m1) + 1,
                                              typedText := inputValue,
                                              currentPosition := inputLength \<rparr> \<rparr>;
                m3 = (if onCorrectKey m2 then emit CorrectKey m2 else m2)
            in
            if currentPosition (state m3) \<ge> length (currentText (state m3))
            then completeTest now m3
            else updateStats now m3
          else
            let m2 = m1\<lparr> state := (state m1)\<lparr> errors := errors (state m1) + 1 \<rparr> \<rparr>;
                m3 = (if onIncorrectKey m2 then emit IncorrectKey m2 else m2);
                m4 = m3\<lparr> state := (state m3)\<lparr> typedText := inputValue,
                                              currentPosition := inputLength \<rparr> \<rparr>
            in updateStats now m4)"

definition isRunning :: "manager \<Rightarrow> bool" where
  "isRunning m \<longleftrightarrow> isActive (state m) \<and> \<not> isPaused (state m)"


section \<open>The background animation (animations.js)\<close>

text \<open>
  Of \<^verbatim>\<open>AnimationManager\<close> the embedding keeps the canvas size, the Pac-Man characters, the
  particles and the callbacks handed to \<^verbatim>\<open>setTimeout\<close>. Coordinates, velocities and
  speeds are exact rationals. A JavaScript closure passed to \<^verbatim>\<open>setTimeout\<close> is a value of
  the datatype \<open>callback\<close>, recorded with its delay in the field \<open>timeouts\<close>;
  \<open>runCallback\<close> is its body. \<^verbatim>\<open>Math.atan2\<close> is a parameter.
\<close>

record pacman =
  pacman_x :: rat
  pacman_y :: rat
  pacman_vx :: rat
  pacman_vy :: rat
  colorIndex :: nat
  pacman_size :: rat
  speed :: rat
  direction :: rat
  mouthAngle :: rat
  mouthSpeed :: rat

record particle =
  particle_x :: rat
  particle_y :: rat
  particle_vx :: rat
  particle_vy :: rat
  particle_size :: rat
  color :: string
  life :: rat
  maxLife :: rat
  alpha :: rat

datatype callback = CompletionRevert | MovementRevert nat

record animation =
  width :: rat
  height :: rat
  pacmanCharacters :: "pacman list"
  particles :: "particle list"
  timeouts :: "(nat \<times> callback) list"

definition celebrationColors :: "string list" where
  "celebrationColors = [''#FFE800'', ''#FF2667'', ''#0080FF'', ''#00FF80'', ''#FF69B4'']"

text \<open>The particle pushed in iteration \<open>i\<close> of the loop; it makes six calls of
  \<^verbatim>\<open>Math.random()\<close>.\<close>

definition celebrationParticle :: "(nat \<Rightarrow> random) \<Rightarrow> animation \<Rightarrow> nat \<Rightarrow> particle" where
  "celebrationParticle rnd a i =
     \<lparr> particle_x = width a / 2 + (Rep_random (rnd (6 * i)) - 1 / 2) * 200,
       particle_y = height a / 2 + (Rep_random (rnd (6 * i + 1)) - 1 / 2) * 200,
       particle_vx = (Rep_random (rnd (6 * i + 2)) - 1 / 2) * 10,
       particle_vy = (Rep_random (rnd (6 * i + 3)) - 1 / 2) * 10,
       particle_size = Rep_random (rnd (6 * i + 4)) * 6 + 2,
       color = celebrationColors ! randomIndex (rnd (6 * i + 5)) (length celebrationColors),
       life = 3000, maxLife = 3000, alpha = 1 \<rparr>"

definition addCompletionEffect :: "(nat \<Rightarrow> random) \<Rightarrow> animation \<Rightarrow> animation" where
  "addCompletionEffect rnd a =
     (let a1 = a\<lparr> particles :=
                   fold (\<lambda>i ps. ps @ [celebrationParticle rnd a i]) [0..<50] (particles a) \<rparr>;
          a2 = a1\<lparr> pacmanCharacters :=
                    map (\<lambda>p. p\<lparr> speed := speed p * 2, pacman_vx := pacman_vx p * 2,
                                 pacman_vy := pacman_vy p * 2 \<rparr>) (pacmanCharacters a1) \<rparr>
      in a2\<lparr> timeouts := timeouts a2 @ [(3000, CompletionRevert)] \<rparr>)"

definition addPacmanMovement :: "animation \<Rightarrow> animation" where
  "addPacmanMovement a =
     (let boost = 12 / 10 in
      a\<lparr> pacmanCharacters :=
           map (\<lambda>p. p\<lparr> pacman_vx := pacman_vx p * boost, pacman_vy := pacman_vy p * boost \<rparr>)
             (pacmanCharacters a),
         timeouts :=
           timeouts a @ map (\<lambda>i. (200, MovementRevert i)) [0..<length (pacmanCharacters a)] \<rparr>)"

fun runCallback :: "callback \<Rightarrow> animation \<Rightarrow> animation" where
  "runCallback CompletionRevert a =
     a\<lparr> pacmanCharacters :=
          map (\<lambda>p. p\<lparr> speed := speed p / 2, pacman_vx := pacman_vx p / 2,
                       pacman_vy := pacman_vy p / 2 \<rparr>) (pacmanCharacters a) \<rparr>"
| "runCallback (MovementRevert i) a =
     (if i < length (pacmanCharacters a)
      then a\<lparr> pacmanCharacters :=
                (pacmanCharacters a)
                  [i := (pacmanCharacters a ! i)
                          \<lparr> pacman_vx := pacman_vx (pacmanCharacters a ! i) / (12 / 10),
                            pacman_vy := pacman_vy (pacmanCharacters a ! i) / (12 / 10) \<rparr>] \<rparr>
      else a)"

definition updatePacman :: "(rat \<Rightarrow> rat \<Rightarrow> rat) \<Rightarrow> rat \<Rightarrow> rat \<Rightarrow> rat \<Rightarrow> pacman \<Rightarrow> pacman" where
  "updatePacman atan2 w h deltaTime p =
     (let p1 = p\<lparr> mouthAngle := mouthAngle p + mouthSpeed p * deltaTime * (1 / 100) \<rparr>;
          p2 = p1\<lparr> pacman_x := pacman_x p1 + pacman_vx p1,
                   pacman_y := pacman_y p1 + pacman_vy p1 \<rparr>;
          p3 = (if pacman_x p2 < 15 \<or> pacman_x p2 > w - 15
                then (let q = p2\<lparr> pacman_vx := pacman_vx p2 * (- 1) \<rparr>
                      in q\<lparr> direction := atan2 (pacman_vy q) (pacman_vx q) \<rparr>)
                else p2);
          p4 = (if pacman_y p3 < 15 \<or> pacman_y p3 > h - 15
                then (let q = p3\<lparr> pacman_vy := pacman_vy p3 * (- 1) \<rparr>
                      in q\<lparr> direction := atan2 (pacman_vy q) (pacman_vx q) \<rparr>)
                else p3)
      in p4\<lparr> pacman_x := max 15 (min (w - 15) (pacman_x p4)),
             pacman_y := max 15 (min (h - 15) (pacman_y p4)) \<rparr>)"

definition updatePacmanCharacters :: "(rat \<Rightarrow> rat \<Rightarrow> rat) \<Rightarrow> rat \<Rightarrow> animation \<Rightarrow> animation" where
  "updatePacmanCharacters atan2 deltaTime a =
     a\<lparr> pacmanCharacters :=
          map (updatePacman atan2 (width a) (height a) deltaTime) (pacmanCharacters a) \<rparr>"

definition updateParticles :: "rat \<Rightarrow> animation \<Rightarrow> animation" where
  "updateParticles deltaTime a =
     a\<lparr> particles :=
          filter (\<lambda>q. life q > 0)
            (map (\<lambda>q. (let q1 = q\<lparr> particle_x := particle_x q + particle_vx q,
                                   particle_y := particle_y q + particle_vy q,
                                   life := life q - deltaTime \<rparr>
                        in q1\<lparr> alpha := max 0 (life q1 / maxLife q1) \<rparr>))
               (particles a)) \<rparr>"

text \<open>
  What can happen between a completion effect and its reversion, other than another
  completion effect: a frame (the two update phases that touch Pac-Man characters or
  particles), the boost of a correct keystroke, and the reversion of such a boost.
\<close>

datatype occurrence =
    PacmanFrame rat
  | ParticleFrame rat
  | CorrectKeystroke
  | MovementTimeout nat

fun occur :: "(rat \<Rightarrow> rat \<Rightarrow> rat) \<Rightarrow> occurrence \<Rightarrow> animation \<Rightarrow> animation" where
  "occur atan2 (PacmanFrame dt) a = updatePacmanCharacters atan2 dt a"
| "occur atan2 (ParticleFrame dt) a = updateParticles dt a"
| "occur atan2 CorrectKeystroke a = addPacmanMovement a"
| "occur atan2 (MovementTimeout i) a = runCallback (MovementRevert i) a"



section \<open>Notions used in the statements\<close>

subsection \<open>Phases and completion\<close>

text \<open>
  The specification speaks of a phase; the code has the flags \<^verbatim>\<open>isActive\<close> and
  \<^verbatim>\<open>isPaused\<close> only. The phase is read off the flags; a session that is not active has
  been completed if the last thing the manager logged is the line of \<^verbatim>\<open>completeTest\<close>,
  has otherwise been stopped if it carries an end time, and is idle if it carries none.
\<close>

definition isCompletion :: "effect \<Rightarrow> bool" where
  "isCompletion e = (case e of LogCompleted r \<Rightarrow> True | _ \<Rightarrow> False)"

text \<open>The number of calls of \<^verbatim>\<open>completeTest\<close> so far.\<close>

definition completions :: "manager \<Rightarrow> nat" where
  "completions m = length (filter isCompletion (effects m))"

datatype phase = Idle | Running | Paused | Completed | Stopped

definition phase :: "manager \<Rightarrow> phase" where
  "phase m =
     (if isActive (state m) then (if isPaused (state m) then Paused else Running)
      else if effects m \<noteq> [] \<and> isCompletion (last (effects m)) then Completed
      else if endTime (state m) \<noteq> None then Stopped
      else Idle)"

text \<open>The comparison \<^verbatim>\<open>newChar === expectedChar\<close> of \<^verbatim>\<open>handleInput\<close> for the input \<open>v\<close>.\<close>

definition keyMatches :: "string \<Rightarrow> manager \<Rightarrow> bool" where
  "keyMatches v m \<longleftrightarrow>
     charAt v (int (length v) - 1) =
     charAt (currentText (state m)) (int (currentPosition (state m)))"

text \<open>
  Typing \<open>j\<close> further characters of the target text, each the expected one: the input
  buffer after keystroke \<open>i\<close> is the target text up to and including the position typed,
  and \<open>clock i\<close> is the time of that keystroke.
\<close>

fun typeMatching :: "(nat \<Rightarrow> int) \<Rightarrow> nat \<Rightarrow> manager \<Rightarrow> manager" where
  "typeMatching clock 0 m = m"
| "typeMatching clock (Suc j) m =
     (let m' = typeMatching clock j m
      in handleInput (clock j)
           (take (Suc (currentPosition (state m'))) (currentText (state m'))) m')"

subsection \<open>Example sessions\<close>

text \<open>A test on a given target text, started at time 1000, as a unit test sets one up.\<close>

definition session :: "string \<Rightarrow> manager" where
  "session t =
     start 1000 (TypingTestManager\<lparr> state := (state TypingTestManager)\<lparr> currentText := t \<rparr> \<rparr>)"

text \<open>A sequence of input events (at time 1500), given by the successive contents of the
  input field.\<close>

primrec keystrokes :: "string list \<Rightarrow> manager \<Rightarrow> manager" where
  "keystrokes [] m = m"
| "keystrokes (v # vs) m = keystrokes vs (handleInput 1500 v m)"

text \<open>
  The target text \<^verbatim>\<open>cat\<close> with \<^verbatim>\<open>c\<close>, \<^verbatim>\<open>a\<close> typed, and with \<^verbatim>\<open>c\<close>, \<^verbatim>\<open>a\<close>, \<^verbatim>\<open>x\<close>
  typed.
\<close>

definition cat_two_typed :: manager where
  "cat_two_typed = keystrokes [''c'', ''ca''] (session ''cat'')"

definition cat_mistyped :: manager where
  "cat_mistyped = keystrokes [''c'', ''ca'', ''cax''] (session ''cat'')"



text \<open>
  The target text \<^verbatim>\<open>hello world\<close> with \<^verbatim>\<open>hello\<close> typed correctly within half a second of
  the start; and a session with 50 correct characters, started at time 1000.
\<close>

definition hello_typed :: manager where
  "hello_typed =
     keystrokes [''h'', ''he'', ''hel'', ''hell'', ''hello''] (session ''hello world'')"

definition fifty_correct :: manager where
  "fifty_correct =
     TypingTestManager\<lparr> state := (state TypingTestManager)
       \<lparr> isActive := True, startTime := Some 1000, totalChars := 50, correctChars := 50 \<rparr> \<rparr>"

text \<open>Sources of random numbers that always return 0, and always 1/2.\<close>

definition always_zero :: "nat \<Rightarrow> random" where
  "always_zero k = Abs_random 0"

definition always_half :: "nat \<Rightarrow> random" where
  "always_half k = Abs_random (1 / 2)"

subsection \<open>The metrics as the specification words them\<close>

definition spec_minutes :: "rat \<Rightarrow> rat" where
  "spec_minutes elapsedSeconds = max (elapsedSeconds / 60) (1 / 3600)"

definition spec_wpm :: "int \<Rightarrow> rat \<Rightarrow> rat" where
  "spec_wpm correctCharCount elapsedSeconds =
     max 0 ((of_int correctCharCount / 5) / spec_minutes elapsedSeconds)"

subsection \<open>Text generation\<close>

text \<open>
  The pool of the configured difficulty and the target length, as \<^verbatim>\<open>generateTestText\<close>
  computes them, and the length accumulated in \<^verbatim>\<open>currentLength\<close> for a list of parts:
  each part counts with one more for its space.
\<close>

definition chosenPool :: "config \<Rightarrow> pool" where
  "chosenPool c =
     (case map_of difficulties (difficulty c) of
        Some d \<Rightarrow> d
      | None \<Rightarrow> the (map_of difficulties ''normal''))"

definition targetLength :: "config \<Rightarrow> int" where
  "targetLength c = 40 * time c * 5"

definition accumulated :: "string list \<Rightarrow> int" where
  "accumulated parts = (\<Sum>p\<leftarrow>parts. int (length p) + 1)"

text \<open>
  Drawing at random, as the specification words it. A random number \<open>r\<close> with
  \<open>0 \<le> r < 1\<close> chooses among \<open>n\<close> items the one at index \<open>\<lfloor>r * n\<rfloor>\<close>, that is
  the item \<open>i\<close> whose cell \<open>i / n \<le> r < (i + 1) / n\<close> contains \<open>r\<close>; each item has a
  cell of the same length. Drawing \<open>n\<close> items without replacement takes the chosen
  item out of the pool before the next draw; drawing \<open>w\<close> items with replacement
  chooses each from the whole pool. Both list the items in the order drawn; \<open>k\<close> is
  the number of random numbers used up before. Joining parts with single spaces puts one
  space in front of every part but the first.
\<close>

definition joinedWithSpaces :: "string list \<Rightarrow> string" where
  "joinedWithSpaces parts =
     (case parts of
        [] \<Rightarrow> []
      | p # ps \<Rightarrow> p @ concat (map (\<lambda>q. CHR '' '' # q) ps))"

definition chosen :: "random \<Rightarrow> nat \<Rightarrow> nat" where
  "chosen r n = nat \<lfloor>Rep_random r * of_nat n\<rfloor>"

fun drawnWithoutReplacement :: "(nat \<Rightarrow> random) \<Rightarrow> nat \<Rightarrow> nat \<Rightarrow> 'a list \<Rightarrow> 'a list" where
  "drawnWithoutReplacement rnd k 0 pool = []"
| "drawnWithoutReplacement rnd k (Suc n) pool =
     pool ! chosen (rnd k) (length pool)
     # drawnWithoutReplacement rnd (Suc k) n
         (take (chosen (rnd k) (length pool)) pool
          @ drop (Suc (chosen (rnd k) (length pool))) pool)"

definition drawnWithReplacement :: "(nat \<Rightarrow> random) \<Rightarrow> nat \<Rightarrow> nat \<Rightarrow> 'a list \<Rightarrow> 'a list" where
  "drawnWithReplacement rnd k w pool =
     map (\<lambda>j. pool ! chosen (rnd (k + j)) (length pool)) [0..<w]"

text \<open>The default configuration with one minute at the easy level.\<close>

definition easy_minute :: manager where
  "easy_minute =
     TypingTestManager\<lparr> config := merge (config TypingTestManager)
       \<lparr> new_difficulty = Some ''easy'', new_mode = None, new_language = None,
         new_time = Some 1 \<rparr> \<rparr>"

subsection \<open>The session state of the specification\<close>

text \<open>
  The session state as the specification lists it in its data model: the target text,
  the typed prefix length, the typed text, the three counters, the start time, the
  remaining seconds and the phase. (The field \<^verbatim>\<open>endTime\<close> of the code is not part of it;
  the code writes it and never reads it.)
\<close>

record spec_session =
  targetText :: string
  typedPrefixLength :: nat
  typedSoFar :: string
  correctCharCount :: int
  totalKeystrokeCount :: int
  errorCount :: int
  startedAt :: "int option"
  remainingSeconds :: int
  sessionPhase :: phase

definition sessionState :: "manager \<Rightarrow> spec_session" where
  "sessionState m =
     \<lparr> targetText = currentText (state m),
       typedPrefixLength = currentPosition (state m),
       typedSoFar = typedText (state m),
       correctCharCount = correctChars (state m),
       totalKeystrokeCount = totalChars (state m),
       errorCount = errors (state m),
       startedAt = startTime (state m),
       remainingSeconds = timeRemaining (state m),
       sessionPhase = phase m \<rparr>"

subsection \<open>Operations on a session\<close>

text \<open>
  Everything that can happen to a manager: the calls of its public methods (with the
  clock reading and the random numbers they consume), the assignment of the callbacks,
  an input event, and the expiry of the countdown interval.
\<close>

datatype operation =
    Init "input_element option"
  | AssignCallbacks bool bool bool bool
  | Configure config_patch "nat \<Rightarrow> random"
  | Start int
  | Pause
  | Resume
  | Stop int
  | Reset int "nat \<Rightarrow> random"
  | SubmitKeystroke int string
  | IntervalElapsed int

fun perform :: "operation \<Rightarrow> manager \<Rightarrow> manager" where
  "perform (Init el) m = init el m"
| "perform (AssignCallbacks s c k i) m =
     m\<lparr> onStatsUpdate := s, onComplete := c, onCorrectKey := k, onIncorrectKey := i \<rparr>"
| "perform (Configure p rnd) m = configure p rnd m"
| "perform (Start now) m = start now m"
| "perform Pause m = pause m"
| "perform Resume m = resume m"
| "perform (Stop now) m = stop now m"
| "perform (Reset now rnd) m = reset now rnd m"
| "perform (SubmitKeystroke now v) m = handleInput now v m"
| "perform (IntervalElapsed now) m = intervalElapsed now m"

fun restarts :: "operation \<Rightarrow> bool" where
  "restarts (Configure p rnd) = True"
| "restarts (Reset now rnd) = True"
| "restarts _ = False"

fun starts :: "operation \<Rightarrow> bool" where
  "starts (Start now) = True"
| "starts _ = False"

definition session_inv :: "state \<Rightarrow> bool" where
  "session_inv st \<longleftrightarrow>
     currentPosition st = length (typedText st)
     \<and> correctChars st \<le> totalChars st
     \<and> 0 \<le> errors st"

definition counters_not_decreased :: "state \<Rightarrow> state \<Rightarrow> bool" where
  "counters_not_decreased before after \<longleftrightarrow>
     correctChars before \<le> correctChars after
     \<and> totalChars before \<le> totalChars after
     \<and> errors before \<le> errors after"

section \<open>Basic facts about the typing test manager\<close>

lemma state_emit [simp]: "state (emit e m) = state m"
  by (simp add: emit_def)
lemma state_updateStats [simp]: "state (updateStats now m) = state m"
  by (simp add: updateStats_def)
lemma state_setDisabled [simp]: "state (setDisabled b m) = state m"
  by (simp add: setDisabled_def split: option.splits)
lemma state_clearTimer [simp]: "state (clearTimer m) = state m"
  by (simp add: clearTimer_def)
lemma state_startTimer [simp]: "state (startTimer m) = state m"
  by (simp add: startTimer_def)
lemma state_stop [simp]:
  "state (stop now m) = (state m)\<lparr> isActive := False, endTime := Some now \<rparr>"
  by (simp add: stop_def)
lemma state_completeTest [simp]:
  "state (completeTest now m) = (state m)\<lparr> isActive := False, endTime := Some now \<rparr>"
  by (simp add: completeTest_def Let_def)

lemma completions_emit:
  "completions (emit e m) = completions m + (if isCompletion e then 1 else 0)"
  by (simp add: completions_def emit_def)
lemma completions_updateStats [simp]: "completions (updateStats now m) = completions m"
  by (simp add: updateStats_def completions_emit isCompletion_def)
lemma effects_setDisabled [simp]: "effects (setDisabled b m) = effects m"
  by (simp add: setDisabled_def split: option.splits)
lemma effects_clearTimer [simp]: "effects (clearTimer m) = effects m"
  by (simp add: clearTimer_def)
lemma completions_stop [simp]: "completions (stop now m) = completions m"
  by (simp add: stop_def completions_def emit_def isCompletion_def)
lemma completions_completeTest [simp]:
  "completions (completeTest now m) = completions m + 1"
  by (simp add: completeTest_def Let_def completions_emit isCompletion_def)
lemma completions_state_update [simp]:
  "completions (m\<lparr> state := s \<rparr>) = completions m"
  by (simp add: completions_def)



lemma state_handleInput_insert:
  assumes "isRunning m" "length (typedText (state m)) \<le> length v"
  shows "totalChars (state (handleInput now v m)) = totalChars (state m) + 1"
    and "correctChars (state (handleInput now v m)) =
           correctChars (state m) + (if keyMatches v m then 1 else 0)"
    and "errors (state (handleInput now v m)) =
           errors (state m) + (if keyMatches v m then 0 else 1)"
    and "typedText (state (handleInput now v m)) = v"
    and "currentPosition (state (handleInput now v m)) = length v"
    and "currentText (state (handleInput now v m)) = currentText (state m)"
    and "isPaused (state (handleInput now v m)) = isPaused (state m)"
    and "isActive (state (handleInput now v m)) \<longleftrightarrow>
           \<not> (keyMatches v m \<and> length (currentText (state m)) \<le> length v)"
    and "timeRemaining (state (handleInput now v m)) = timeRemaining (state m)"
  using assms
  by (simp_all add: handleInput_def isRunning_def keyMatches_def Let_def)

lemma completions_handleInput_insert:
  assumes "isRunning m" "length (typedText (state m)) \<le> length v"
  shows "completions (handleInput now v m) =
           completions m +
           (if keyMatches v m \<and> length (currentText (state m)) \<le> length v then 1 else 0)"
  using assms
  by (simp add: handleInput_def isRunning_def keyMatches_def Let_def completions_emit
      isCompletion_def)



lemma effects_completeTest:
  "effects (completeTest now m) \<noteq> []"
  "last (effects (completeTest now m)) = LogCompleted (calculateStats now (stop now m))"
  by (simp_all add: completeTest_def Let_def emit_def)

lemma phase_running: "phase m = Running \<longleftrightarrow> isRunning m"
  by (simp add: phase_def isRunning_def)

lemma phase_completeTest [simp]: "phase (completeTest now m) = Completed"
  by (simp add: phase_def effects_completeTest isCompletion_def)

lemma handleInput_completes:
  assumes "isRunning m" "length (typedText (state m)) \<le> length v" "keyMatches v m"
    "length (currentText (state m)) \<le> length v"
  shows "handleInput now v m =
     completeTest now
       ((if onCorrectKey m then emit CorrectKey else (\<lambda>m. m))
          (m\<lparr> state := (state m)\<lparr> totalChars := totalChars (state m) + 1,
                                   correctChars := correctChars (state m) + 1,
                                   typedText := v, currentPosition := length v \<rparr> \<rparr>))"
  using assms
  by (simp add: handleInput_def isRunning_def keyMatches_def Let_def emit_def)

lemma phase_handleInput_insert:
  assumes "isRunning m" "length (typedText (state m)) \<le> length v"
  shows "phase (handleInput now v m) =
     (if keyMatches v m \<and> length (currentText (state m)) \<le> length v
      then Completed else Running)"
proof (cases "keyMatches v m \<and> length (currentText (state m)) \<le> length v")
  case True
  then show ?thesis
    using handleInput_completes [OF assms, of now] by simp
next
  case False
  then show ?thesis
    using state_handleInput_insert(7,8) [OF assms, of now] assms(1)
    by (auto simp add: phase_def isRunning_def)
qed


lemma charAt_last: "v \<noteq> [] \<Longrightarrow> charAt v (int (length v) - 1) = Some (last v)"
  by (cases v rule: rev_cases) (simp_all add: charAt_def)





lemma isPaused_handleInput [simp]:
  "isPaused (state (handleInput now v m)) = isPaused (state m)"
  by (simp add: handleInput_def Let_def)

lemma isPaused_typeMatching [simp]:
  "isPaused (state (typeMatching clock j m)) = isPaused (state m)"
  by (induction j) (simp_all add: Let_def)

lemma timer_stop [simp]: "\<not> timer (stop now m)"
  by (simp add: stop_def emit_def setDisabled_def clearTimer_def split: option.splits)

lemma intervals_after_stop:
  "\<not> timer m \<Longrightarrow> fold intervalElapsed ticks m = m"
  by (induction ticks) (simp_all add: intervalElapsed_def)

lemma stale_callback: "\<not> isActive (state m) \<Longrightarrow> timerCallback now m = m"
  by (simp add: timerCallback_def)

lemma typingInput_stop:
  "typingInput (stop now m) = map_option (\<lambda>el. el\<lparr> input_disabled := True \<rparr>) (typingInput m)"
  by (simp add: stop_def emit_def setDisabled_def clearTimer_def split: option.splits)

lemma state_resetState [simp]:
  "state (resetState m) =
     (state m)\<lparr> isActive := False, isPaused := False, startTime := None, endTime := None,
                timeRemaining := time (config m) * 60, typedText := [], currentPosition := 0,
                errors := 0, totalChars := 0, correctChars := 0 \<rparr>"
  by (simp add: resetState_def split: option.splits)

lemma state_generateTestText [simp]:
  "isActive (state (generateTestText rnd m)) = isActive (state m)"
  "isPaused (state (generateTestText rnd m)) = isPaused (state m)"
  "startTime (state (generateTestText rnd m)) = startTime (state m)"
  "endTime (state (generateTestText rnd m)) = endTime (state m)"
  "timeRemaining (state (generateTestText rnd m)) = timeRemaining (state m)"
  "typedText (state (generateTestText rnd m)) = typedText (state m)"
  "currentPosition (state (generateTestText rnd m)) = currentPosition (state m)"
  "errors (state (generateTestText rnd m)) = errors (state m)"
  "totalChars (state (generateTestText rnd m)) = totalChars (state m)"
  "correctChars (state (generateTestText rnd m)) = correctChars (state m)"
  by (simp_all add: generateTestText_def Let_def)

lemma state_start [simp]:
  "state (start now m) = (state m)\<lparr> isActive := True, isPaused := False, startTime := Some now \<rparr>"
  by (simp add: start_def)

lemma state_pause [simp]: "state (pause m) = (state m)\<lparr> isPaused := True \<rparr>"
  by (simp add: pause_def)

lemma state_resume [simp]: "state (resume m) = (state m)\<lparr> isPaused := False \<rparr>"
  by (simp add: resume_def)

lemma state_init [simp]: "state (init el m) = state m"
  by (simp add: init_def)

lemma counters_configure:
  "correctChars (state (configure p rnd m)) = 0
   \<and> totalChars (state (configure p rnd m)) = 0
   \<and> errors (state (configure p rnd m)) = 0
   \<and> typedText (state (configure p rnd m)) = []
   \<and> currentPosition (state (configure p rnd m)) = 0"
  by (simp add: configure_def Let_def)

lemma counters_reset:
  "correctChars (state (reset now rnd m)) = 0
   \<and> totalChars (state (reset now rnd m)) = 0
   \<and> errors (state (reset now rnd m)) = 0
   \<and> typedText (state (reset now rnd m)) = []
   \<and> currentPosition (state (reset now rnd m)) = 0"
  by (simp add: reset_def)

lemma counters_timerCallback:
  "correctChars (state (timerCallback now m)) = correctChars (state m)
   \<and> totalChars (state (timerCallback now m)) = totalChars (state m)
   \<and> errors (state (timerCallback now m)) = errors (state m)
   \<and> typedText (state (timerCallback now m)) = typedText (state m)
   \<and> currentPosition (state (timerCallback now m)) = currentPosition (state m)"
  by (simp add: timerCallback_def Let_def)

lemma counters_handleInput:
  "correctChars (state m) \<le> correctChars (state (handleInput now v m))
   \<and> totalChars (state m) \<le> totalChars (state (handleInput now v m))
   \<and> errors (state m) \<le> errors (state (handleInput now v m))
   \<and> correctChars (state (handleInput now v m)) - correctChars (state m)
       \<le> totalChars (state (handleInput now v m)) - totalChars (state m)
   \<and> (handleInput now v m = m \<or>
        (typedText (state (handleInput now v m)) = v
         \<and> currentPosition (state (handleInput now v m)) = length v))"
  by (simp add: handleInput_def Let_def)

lemma deletion:
  assumes "isRunning m" "length v < length (typedText (state m))"
  shows "state (handleInput now v m) = (state m)\<lparr> typedText := v, currentPosition := length v \<rparr>"
  using assms by (simp add: handleInput_def isRunning_def Let_def)

lemma session_inv_perform:
  "session_inv (state m) \<Longrightarrow> session_inv (state (perform op m))"
proof (cases op)
  case (Configure p rnd)
  then show ?thesis using counters_configure [of p rnd m] by (simp add: session_inv_def)
next
  case (Reset now rnd)
  then show ?thesis using counters_reset [of now rnd m] by (simp add: session_inv_def)
next
  case (SubmitKeystroke now v)
  assume "session_inv (state m)"
  then show ?thesis
    using counters_handleInput [of m now v] SubmitKeystroke
    by (auto simp add: session_inv_def)
next
  case (IntervalElapsed now)
  assume "session_inv (state m)"
  then show ?thesis using counters_timerCallback [of now m] IntervalElapsed
    by (simp add: session_inv_def intervalElapsed_def)
qed (simp_all add: session_inv_def)

lemma session_inv_run:
  "session_inv (state m) \<Longrightarrow> session_inv (state (fold perform ops m))"
  by (induction ops arbitrary: m) (simp_all add: session_inv_perform)

lemma monotone_perform:
  "\<not> restarts op \<Longrightarrow> counters_not_decreased (state m) (state (perform op m))"
proof (cases op)
  case (SubmitKeystroke now v)
  then show ?thesis
    using counters_handleInput [of m now v] by (simp add: counters_not_decreased_def)
next
  case (IntervalElapsed now)
  then show ?thesis using counters_timerCallback [of now m]
    by (simp add: counters_not_decreased_def intervalElapsed_def)
qed (simp_all add: counters_not_decreased_def)

lemma zero_perform:
  "restarts op \<Longrightarrow> correctChars (state (perform op m)) = 0
     \<and> totalChars (state (perform op m)) = 0 \<and> errors (state (perform op m)) = 0"
  using counters_configure counters_reset by (cases op) simp_all

lemma inactive_perform:
  assumes "\<not> isActive (state m)" "\<not> starts op" "\<not> restarts op"
  shows "\<not> isActive (state (perform op m))
       \<and> timeRemaining (state (perform op m)) = timeRemaining (state m)"
  using assms
  by (cases op) (simp_all add: handleInput_def intervalElapsed_def timerCallback_def)

lemma inactive_run:
  assumes "\<not> isActive (state m)" "\<forall>op\<in>set ops. \<not> starts op \<and> \<not> restarts op"
  shows "\<not> isActive (state (fold perform ops m))
       \<and> timeRemaining (state (fold perform ops m)) = timeRemaining (state m)"
  using assms
proof (induction ops arbitrary: m)
  case Nil
  then show ?case by simp
next
  case (Cons op ops)
  have "\<not> isActive (state (perform op m))
       \<and> timeRemaining (state (perform op m)) = timeRemaining (state m)"
    using Cons.prems by (intro inactive_perform) simp_all
  then show ?case
    using Cons.IH [of "perform op m"] Cons.prems by simp
qed

lemma phase_stop [simp]: "phase (stop now m) = Stopped"
  by (simp add: phase_def stop_def emit_def isCompletion_def)

lemma calculateStats_state:
  "currentText (state a) = currentText (state b) \<Longrightarrow>
   currentPosition (state a) = currentPosition (state b) \<Longrightarrow>
   correctChars (state a) = correctChars (state b) \<Longrightarrow>
   totalChars (state a) = totalChars (state b) \<Longrightarrow>
   errors (state a) = errors (state b) \<Longrightarrow>
   startTime (state a) = startTime (state b) \<Longrightarrow>
   timeRemaining (state a) = timeRemaining (state b) \<Longrightarrow>
   calculateStats t a = calculateStats t b"
  by (simp add: calculateStats_def)

section \<open>Keystrokes outside a running test\<close>

text \<open>
  Claim C7. In every session that is not running (paused, stopped, completed or idle),
  an input event changes nothing: \<^verbatim>\<open>handleInput\<close> returns at once, so the whole manager,
  with the typed text, the position, all counters, the flags and the remaining time, is
  what it was, and nothing is raised or logged.
\<close>

theorem keystroke_ignored_unless_running:
  "phase m \<noteq> Running \<Longrightarrow> handleInput now v m = m"
  by (simp add: phase_running handleInput_def isRunning_def)

theorem keystroke_ignored_unless_running_witness:
  "phase (pause (session ''cat'')) \<noteq> Running
   \<and> handleInput 2000 ''c'' (pause (session ''cat'')) = pause (session ''cat'')
   \<and> phase (stop 1800 (session ''cat'')) \<noteq> Running
   \<and> handleInput 2000 ''c'' (stop 1800 (session ''cat'')) = stop 1800 (session ''cat'')"
proof -
  have p: "phase (pause (session ''cat'')) \<noteq> Running"
    by (simp add: phase_def pause_def)
  have q: "phase (stop 1800 (session ''cat'')) \<noteq> Running"
    by (simp add: phase_def)
  show ?thesis
    using p q keystroke_ignored_unless_running [OF p, of 2000 "''c''"]
      keystroke_ignored_unless_running [OF q, of 2000 "''c''"]
    by simp
qed

section \<open>Keystrokes past the end of the target text\<close>

text \<open>
  Claim C10. In a running session whose position is at or beyond the end of the target
  text, an input event that does not shorten the input and inserts a character is still
  handled: reading the expected character yields \<^verbatim>\<open>undefined\<close>, the comparison fails, so
  the total and the error counter grow by one and the counter of correct characters stays;
  the position becomes the length of the input, the session stays running and
  \<^verbatim>\<open>completeTest\<close> is not called; and once the input is longer than a non-empty target
  text the reported progress is above 100.
\<close>

theorem keystroke_past_end:
  assumes "phase m = Running"
    and "length (currentText (state m)) \<le> currentPosition (state m)"
    and "length (typedText (state m)) \<le> length v"
    and "v \<noteq> []"
  shows "totalChars (state (handleInput now v m)) = totalChars (state m) + 1
       \<and> errors (state (handleInput now v m)) = errors (state m) + 1
       \<and> correctChars (state (handleInput now v m)) = correctChars (state m)
       \<and> typedText (state (handleInput now v m)) = v
       \<and> currentPosition (state (handleInput now v m)) = length v
       \<and> phase (handleInput now v m) = Running
       \<and> completions (handleInput now v m) = completions m
       \<and> (currentText (state m) \<noteq> [] \<and> length (currentText (state m)) < length v \<longrightarrow>
            (\<exists>p. getProgress (handleInput now v m) = Num p \<and> 100 < p))"
proof -
  have run: "isRunning m"
    using assms(1) by (simp add: phase_running)
  have "charAt (currentText (state m)) (int (currentPosition (state m))) = None"
    using assms(2) by (simp add: charAt_def)
  then have no: "\<not> keyMatches v m"
    using assms(4) by (simp add: keyMatches_def charAt_last)
  note fields = state_handleInput_insert [OF run assms(3), of now]
  have prog: "\<exists>p. getProgress (handleInput now v m) = Num p \<and> 100 < p"
    if "currentText (state m) \<noteq> []" "length (currentText (state m)) < length v"
  proof -
    have "(100::rat) < of_nat (length v) / of_nat (length (currentText (state m))) * 100"
      using that by (simp add: pos_less_divide_eq)
    then show ?thesis
      using that by (simp add: getProgress_def fields js_divide_def)
  qed
  show ?thesis
    using fields no prog phase_handleInput_insert [OF run assms(3), of now]
      completions_handleInput_insert [OF run assms(3), of now]
    by simp
qed

theorem keystroke_past_end_witness:
  "phase cat_mistyped = Running
   \<and> length (currentText (state cat_mistyped)) \<le> currentPosition (state cat_mistyped)
   \<and> length (typedText (state cat_mistyped)) \<le> length ''caxy''
   \<and> ''caxy'' \<noteq> []
   \<and> errors (state (handleInput 2000 ''caxy'' cat_mistyped)) = 2
   \<and> correctChars (state (handleInput 2000 ''caxy'' cat_mistyped)) = 2
   \<and> currentPosition (state (handleInput 2000 ''caxy'' cat_mistyped)) = 4
   \<and> phase (handleInput 2000 ''caxy'' cat_mistyped) = Running
   \<and> getProgress (handleInput 2000 ''caxy'' cat_mistyped) = Num (400 / 3)"
proof -
  have h: "phase cat_mistyped = Running"
    "length (currentText (state cat_mistyped)) \<le> currentPosition (state cat_mistyped)"
    "length (typedText (state cat_mistyped)) \<le> length ''caxy''" "''caxy'' \<noteq> []"
    by code_simp+
  have v: "errors (state cat_mistyped) = 1" "correctChars (state cat_mistyped) = 2"
    "getProgress (handleInput 2000 ''caxy'' cat_mistyped) = Num (400 / 3)"
    by code_simp+
  show ?thesis
    using h v keystroke_past_end [OF h, of 2000] by simp
qed


section \<open>Insertion of several characters at once\<close>

text \<open>
  Claim C6. In a running session, an input event whose buffer is longer than the typed
  text by more than one character is handled as one insertion: only the last character of
  the new input is compared, against the expected character at the old position;
  \<^verbatim>\<open>totalChars\<close> grows by exactly one (and, with it, either \<^verbatim>\<open>correctChars\<close> or \<^verbatim>\<open>errors\<close>
  by one); the typed text becomes the whole new input and the position its length.
\<close>

theorem multi_character_insertion:
  assumes "phase m = Running"
    and "length (typedText (state m)) + 1 < length v"
  shows "totalChars (state (handleInput now v m)) = totalChars (state m) + 1
       \<and> typedText (state (handleInput now v m)) = v
       \<and> currentPosition (state (handleInput now v m)) = length v
       \<and> correctChars (state (handleInput now v m)) =
           correctChars (state m) +
           (if Some (last v) = charAt (currentText (state m)) (int (currentPosition (state m)))
            then 1 else 0)
       \<and> errors (state (handleInput now v m)) =
           errors (state m) +
           (if Some (last v) = charAt (currentText (state m)) (int (currentPosition (state m)))
            then 0 else 1)"
proof -
  have run: "isRunning m"
    using assms(1) by (simp add: phase_running)
  have len: "length (typedText (state m)) \<le> length v" and ne: "v \<noteq> []"
    using assms(2) by auto
  have "keyMatches v m \<longleftrightarrow>
          Some (last v) = charAt (currentText (state m)) (int (currentPosition (state m)))"
    by (simp add: keyMatches_def charAt_last [OF ne])
  then show ?thesis
    using state_handleInput_insert [OF run len, of now] by simp
qed

theorem multi_character_insertion_witness:
  "phase (session ''cat'') = Running
   \<and> length (typedText (state (session ''cat''))) + 1 < length ''xyc''
   \<and> totalChars (state (handleInput 2000 ''xyc'' (session ''cat''))) = 1
   \<and> typedText (state (handleInput 2000 ''xyc'' (session ''cat''))) = ''xyc''
   \<and> currentPosition (state (handleInput 2000 ''xyc'' (session ''cat''))) = 3
   \<and> correctChars (state (handleInput 2000 ''xyc'' (session ''cat''))) = 1
   \<and> errors (state (handleInput 2000 ''xyc'' (session ''cat''))) = 0"
proof -
  have h: "phase (session ''cat'') = Running"
    "length (typedText (state (session ''cat''))) + 1 < length ''xyc''"
    by code_simp+
  have v: "totalChars (state (session ''cat'')) = 0" "correctChars (state (session ''cat'')) = 0"
    "errors (state (session ''cat'')) = 0"
    "charAt (currentText (state (session ''cat''))) (int (currentPosition (state (session ''cat'')))) = Some CHR ''c''"
    by code_simp+
  show ?thesis
    using h v multi_character_insertion [OF h, of 2000] by simp
qed

section \<open>When a keystroke completes the test\<close>

text \<open>
  Claim C5 as stated fails: with \<^verbatim>\<open>ca\<close> typed of the target \<^verbatim>\<open>cat\<close>, the input \<^verbatim>\<open>cax\<close> is an
  insertion in the incorrect-character branch after which the position equals the length
  of the target text, yet \<^verbatim>\<open>completeTest\<close> has not been called and the session is still
  running.
\<close>

theorem no_completion_after_wrong_last_character:
  "phase cat_two_typed = Running
   \<and> length (typedText (state cat_two_typed)) < length ''cax''
   \<and> currentPosition (state (handleInput 2000 ''cax'' cat_two_typed)) =
       length (currentText (state (handleInput 2000 ''cax'' cat_two_typed)))
   \<and> phase (handleInput 2000 ''cax'' cat_two_typed) = Running
   \<and> completions (handleInput 2000 ''cax'' cat_two_typed) = 0"
  by code_simp

text \<open>
  Claim C5, amended. In a running session, after an insertion, \<^verbatim>\<open>completeTest\<close> is called,
  taking the session from running to completed, exactly when the insertion took the
  correct-character branch and the position has reached (or passed) the end of the target
  text; in particular it is called when the position then equals the length of the target
  text. After an insertion in the incorrect-character branch \<^verbatim>\<open>completeTest\<close> is not
  called and the session stays running, whatever the position.
\<close>

theorem completion_only_in_correct_branch:
  assumes "phase m = Running"
    and "length (typedText (state m)) \<le> length v"
  shows "(keyMatches v m \<and> length (currentText (state m)) \<le> length v \<longrightarrow>
            phase (handleInput now v m) = Completed
          \<and> completions (handleInput now v m) = completions m + 1)
       \<and> (\<not> (keyMatches v m \<and> length (currentText (state m)) \<le> length v) \<longrightarrow>
            phase (handleInput now v m) = Running
          \<and> completions (handleInput now v m) = completions m)
       \<and> currentPosition (state (handleInput now v m)) = length v"
proof -
  have run: "isRunning m"
    using assms(1) by (simp add: phase_running)
  show ?thesis
    using phase_handleInput_insert [OF run assms(2), of now]
      completions_handleInput_insert [OF run assms(2), of now]
      state_handleInput_insert(5) [OF run assms(2), of now]
    by simp
qed

theorem completion_only_in_correct_branch_witness:
  "phase cat_two_typed = Running
   \<and> length (typedText (state cat_two_typed)) \<le> length ''cat''
   \<and> keyMatches ''cat'' cat_two_typed
   \<and> phase (handleInput 2000 ''cat'' cat_two_typed) = Completed
   \<and> completions (handleInput 2000 ''cat'' cat_two_typed) = 1
   \<and> length (typedText (state cat_two_typed)) \<le> length ''cax''
   \<and> \<not> keyMatches ''cax'' cat_two_typed
   \<and> phase (handleInput 2000 ''cax'' cat_two_typed) = Running
   \<and> completions (handleInput 2000 ''cax'' cat_two_typed) = 0"
proof -
  have h: "phase cat_two_typed = Running"
    "length (typedText (state cat_two_typed)) \<le> length ''cat''"
    "length (typedText (state cat_two_typed)) \<le> length ''cax''"
    by code_simp+
  have v: "keyMatches ''cat'' cat_two_typed" "\<not> keyMatches ''cax'' cat_two_typed"
    "length (currentText (state cat_two_typed)) \<le> length ''cat''"
    "completions cat_two_typed = 0"
    by code_simp+
  show ?thesis
    using h v completion_only_in_correct_branch [OF h(1,2), of 2000] completion_only_in_correct_branch [OF h(1,3), of 2000] by simp
qed


section \<open>Typing the target text without a mistake\<close>





section \<open>Stopping\<close>

text \<open>
  Claim C8. Calling \<^verbatim>\<open>stop\<close> twice in a row leaves the same session state as calling it
  once: the target text, the typed text and position, the counters, the start time, the
  remaining seconds and the phase are the same, and so are the statistics, the progress,
  the timer, the input element and the configuration (of the fields of the code only
  \<^verbatim>\<open>endTime\<close>, which is outside the session state and never read, takes the later clock
  reading). When \<^verbatim>\<open>stop\<close> returns the countdown timer is cancelled: no interval is
  registered, so however many seconds elapse afterwards the countdown callback does not
  run, nothing changes and the remaining seconds are never decremented; a stale callback
  would find the session inactive and change nothing either. The same holds with any
  other operations in between (pausing, resuming, stopping again, input events, expiries
  of an interval that \<^verbatim>\<open>resume\<close> registered): as long as the test is not started or set up
  anew, the remaining seconds stay what they were.
\<close>

theorem stop_is_idempotent:
  "sessionState (stop later (stop now m)) = sessionState (stop now m)
   \<and> state (stop later (stop now m)) = (state (stop now m))\<lparr> endTime := Some later \<rparr>
   \<and> calculateStats t (stop later (stop now m)) = calculateStats t (stop now m)
   \<and> getProgress (stop later (stop now m)) = getProgress (stop now m)
   \<and> timer (stop later (stop now m)) = timer (stop now m)
   \<and> typingInput (stop later (stop now m)) = typingInput (stop now m)
   \<and> config (stop later (stop now m)) = config (stop now m)
   \<and> \<not> timer (stop now m)
   \<and> fold intervalElapsed ticks (stop now m) = stop now m
   \<and> timerCallback tick (stop now m) = stop now m
   \<and> remainingSeconds (sessionState (fold intervalElapsed ticks (stop now m))) =
       remainingSeconds (sessionState m)
   \<and> remainingSeconds (sessionState
         (fold perform (filter (\<lambda>op. \<not> starts op \<and> \<not> restarts op) ops) (stop now m))) =
       remainingSeconds (sessionState m)"
proof -
  have "typingInput (stop later (stop now m)) = typingInput (stop now m)"
    by (cases "typingInput m") (simp_all add: typingInput_stop)
  moreover have "config (stop later (stop now m)) = config (stop now m)"
    by (simp add: stop_def emit_def setDisabled_def clearTimer_def split: option.splits)
  moreover have idle: "fold intervalElapsed ticks (stop now m) = stop now m"
    by (rule intervals_after_stop) simp
  moreover have "timerCallback tick (stop now m) = stop now m"
    by (rule stale_callback) simp
  moreover have "calculateStats t (stop later (stop now m)) = calculateStats t (stop now m)"
    by (rule calculateStats_state) simp_all
  moreover have "remainingSeconds (sessionState (fold intervalElapsed ticks (stop now m))) =
       remainingSeconds (sessionState m)"
    unfolding idle by (simp add: sessionState_def)
  moreover have "remainingSeconds (sessionState
         (fold perform (filter (\<lambda>op. \<not> starts op \<and> \<not> restarts op) ops) (stop now m))) =
       remainingSeconds (sessionState m)"
    using inactive_run [of "stop now m" "filter (\<lambda>op. \<not> starts op \<and> \<not> restarts op) ops"]
    by (simp add: sessionState_def)
  ultimately show ?thesis
    by (simp add: sessionState_def getProgress_def)
qed

section \<open>Words per minute\<close>

text \<open>
  Claim C4 as stated fails: the code bounds the elapsed minutes from below by \<^verbatim>\<open>1/60\<close>
  (one second), not by \<^verbatim>\<open>1/3600\<close>. Half a second after the start, with five correct
  characters, \<^verbatim>\<open>calculateStats\<close> reports 60 words per minute where the formula of the
  specification gives 120.
\<close>

theorem wpm_differs_from_spec_formula:
  "wpm (calculateStats 1500 hello_typed)
     \<noteq> spec_wpm (correctChars (state hello_typed)) (timeElapsed (calculateStats 1500 hello_typed))"
  by code_simp

text \<open>
  Claim C4, amended. The elapsed seconds are the clock reading minus the start time over
  1000 (0 when the test has not been started); the elapsed minutes are
  \<open>max (elapsedSeconds / 60) (1 / 60)\<close>; the words per minute are
  \<open>max 0 ((correctChars / 5) / minutes)\<close>. With 50 correct characters and 60 elapsed
  seconds the result is 10.
\<close>

theorem wpm_floor_one_second:
  "timeElapsed (calculateStats now m) =
     (case startTime (state m) of
        None \<Rightarrow> 0
      | Some t \<Rightarrow> if t = 0 then 0 else of_int (now - t) / 1000)
   \<and> wpm (calculateStats now m) =
       max 0 ((of_int (correctChars (state m)) / 5)
               / max (timeElapsed (calculateStats now m) / 60) (1 / 60))
   \<and> (correctChars (state m) = 50 \<and> timeElapsed (calculateStats now m) = 60 \<longrightarrow>
        wpm (calculateStats now m) = 10)"
  by (simp add: calculateStats_def Let_def)

theorem wpm_floor_one_second_witness:
  "correctChars (state fifty_correct) = 50
   \<and> timeElapsed (calculateStats 61000 fifty_correct) = 60
   \<and> wpm (calculateStats 61000 fifty_correct) = 10
   \<and> wpm (calculateStats 1500 hello_typed) = 60"
proof -
  have h: "correctChars (state fifty_correct) = 50"
    "timeElapsed (calculateStats 61000 fifty_correct) = 60"
    by code_simp+
  have v: "wpm (calculateStats 1500 hello_typed) = 60"
    by code_simp
  show ?thesis
    using h v wpm_floor_one_second [of 61000 fifty_correct] by simp
qed


section \<open>The session invariant and the counters\<close>

text \<open>
  Claim C2 as stated fails for \<^verbatim>\<open>reset\<close> (and \<^verbatim>\<open>configure\<close>): it sets the counters back
  to zero, so they do decrease.
\<close>

theorem reset_decreases_counters:
  "totalChars (state (perform (Reset 3000 always_zero) cat_mistyped))
     < totalChars (state cat_mistyped)"
proof -
  have "totalChars (state cat_mistyped) = 3"
    by code_simp
  then show ?thesis
    using counters_reset [of 3000 always_zero cat_mistyped] by simp
qed

text \<open>
  Claim C2, amended. After any sequence of operations on a new manager, and after any
  single operation on a manager that satisfies it, the position equals the length of the
  typed text, \<^verbatim>\<open>correctChars\<close> is at most \<^verbatim>\<open>totalChars\<close> and \<^verbatim>\<open>errors\<close> is not negative.
  None of the three counters decreases under \<^verbatim>\<open>init\<close>, \<^verbatim>\<open>start\<close>, \<^verbatim>\<open>pause\<close>, \<^verbatim>\<open>resume\<close>,
  \<^verbatim>\<open>stop\<close>, an input event or a tick of the countdown; \<^verbatim>\<open>configure\<close> and \<^verbatim>\<open>reset\<close> set all
  three to zero. A deletion (an input shorter than the typed text, in a running session)
  leaves the three counters unchanged and sets the typed text and the position to the
  shorter input.
\<close>

theorem session_invariant_and_counters:
  "session_inv (state (fold perform ops TypingTestManager))
   \<and> (session_inv (state m) \<longrightarrow> session_inv (state (perform op m)))
   \<and> (\<not> restarts op \<longrightarrow> counters_not_decreased (state m) (state (perform op m)))
   \<and> (restarts op \<longrightarrow>
        correctChars (state (perform op m)) = 0 \<and> totalChars (state (perform op m)) = 0
        \<and> errors (state (perform op m)) = 0)
   \<and> (phase m = Running \<and> length v < length (typedText (state m)) \<longrightarrow>
        correctChars (state (handleInput now v m)) = correctChars (state m)
        \<and> totalChars (state (handleInput now v m)) = totalChars (state m)
        \<and> errors (state (handleInput now v m)) = errors (state m)
        \<and> typedText (state (handleInput now v m)) = v
        \<and> currentPosition (state (handleInput now v m)) = length v)"
proof -
  have "session_inv (state TypingTestManager)"
    by (simp add: session_inv_def TypingTestManager_def)
  then have "session_inv (state (fold perform ops TypingTestManager))"
    by (rule session_inv_run)
  then show ?thesis
    using session_inv_perform [of m op] monotone_perform [of op m] zero_perform [of op m]
      deletion [of m v now]
    by (simp add: phase_running)
qed

theorem session_invariant_and_counters_witness:
  "session_inv (state cat_mistyped)
   \<and> session_inv (state (perform (SubmitKeystroke 2000 ''ca'') cat_mistyped))
   \<and> \<not> restarts (SubmitKeystroke 2000 ''ca'')
   \<and> counters_not_decreased (state cat_mistyped)
        (state (perform (SubmitKeystroke 2000 ''ca'') cat_mistyped))
   \<and> phase cat_mistyped = Running
   \<and> length ''ca'' < length (typedText (state cat_mistyped))
   \<and> totalChars (state (handleInput 2000 ''ca'' cat_mistyped)) = 3
   \<and> correctChars (state (handleInput 2000 ''ca'' cat_mistyped)) = 2
   \<and> errors (state (handleInput 2000 ''ca'' cat_mistyped)) = 1
   \<and> currentPosition (state (handleInput 2000 ''ca'' cat_mistyped)) = 2
   \<and> restarts (Reset 3000 always_zero)
   \<and> totalChars (state (perform (Reset 3000 always_zero) cat_mistyped)) = 0"
proof -
  have h: "session_inv (state cat_mistyped)" "phase cat_mistyped = Running"
    "length ''ca'' < length (typedText (state cat_mistyped))"
    by code_simp+
  have v: "totalChars (state cat_mistyped) = 3" "correctChars (state cat_mistyped) = 2"
    "errors (state cat_mistyped) = 1"
    by code_simp+
  show ?thesis
    using h v
      session_invariant_and_counters
        [of "[]" cat_mistyped "SubmitKeystroke 2000 ''ca''" "''ca''" 2000]
      session_invariant_and_counters
        [of "[]" cat_mistyped "Reset 3000 always_zero" "''ca''" 2000]
    by simp
qed


section \<open>The completion effect of the animation\<close>

lemma length_fold_push:
  "length (fold (\<lambda>i ps. ps @ [f i]) xs ps0) = length ps0 + length xs"
  by (induction xs arbitrary: ps0) simp_all

lemma speed_updatePacman [simp]: "speed (updatePacman atan2 w h dt p) = speed p"
  by (simp add: updatePacman_def Let_def)

lemma speeds_occur:
  "map speed (pacmanCharacters (occur atan2 ev a)) = map speed (pacmanCharacters a)"
proof (cases ev)
  case (PacmanFrame dt)
  then show ?thesis
    by (simp add: updatePacmanCharacters_def comp_def)
next
  case (ParticleFrame dt)
  then show ?thesis
    by (simp add: updateParticles_def)
next
  case CorrectKeystroke
  then show ?thesis
    by (simp add: addPacmanMovement_def Let_def comp_def)
next
  case (MovementTimeout i)
  then show ?thesis
    by (simp add: map_update list_eq_iff_nth_eq nth_list_update)
qed

lemma speeds_between:
  "map speed (pacmanCharacters (fold (occur atan2) evs a)) = map speed (pacmanCharacters a)"
  by (induction evs arbitrary: a) (simp_all add: speeds_occur)

lemma speeds_revert:
  "map speed (pacmanCharacters (runCallback CompletionRevert a)) =
     map (\<lambda>s. s / 2) (map speed (pacmanCharacters a))"
  by (simp add: comp_def)

text \<open>
  Claim C9. \<^verbatim>\<open>addCompletionEffect\<close> adds exactly 50 particles, doubles the speed and both
  velocity components of every Pac-Man character, and schedules one reversion after 3000
  milliseconds. When the reversion runs, every Pac-Man character has exactly the speed it
  had before the effect, whatever frames, keystroke boosts and reversions of keystroke
  boosts have occurred in between (no other completion effect overlapping); with nothing
  in between, the characters are exactly as before.
\<close>

theorem completion_effect:
  "length (particles (addCompletionEffect rnd a)) = length (particles a) + 50
   \<and> map speed (pacmanCharacters (addCompletionEffect rnd a)) =
       map (\<lambda>p. speed p * 2) (pacmanCharacters a)
   \<and> map pacman_vx (pacmanCharacters (addCompletionEffect rnd a)) =
       map (\<lambda>p. pacman_vx p * 2) (pacmanCharacters a)
   \<and> map pacman_vy (pacmanCharacters (addCompletionEffect rnd a)) =
       map (\<lambda>p. pacman_vy p * 2) (pacmanCharacters a)
   \<and> timeouts (addCompletionEffect rnd a) = timeouts a @ [(3000, CompletionRevert)]
   \<and> pacmanCharacters (runCallback CompletionRevert (addCompletionEffect rnd a)) =
       pacmanCharacters a
   \<and> map speed (pacmanCharacters
         (runCallback CompletionRevert (fold (occur atan2) between (addCompletionEffect rnd a)))) =
       map speed (pacmanCharacters a)"
proof -
  have doubled: "map speed (pacmanCharacters (addCompletionEffect rnd a)) =
       map (\<lambda>p. speed p * 2) (pacmanCharacters a)"
    by (simp add: addCompletionEffect_def Let_def comp_def)
  have "map speed (pacmanCharacters
         (runCallback CompletionRevert (fold (occur atan2) between (addCompletionEffect rnd a)))) =
       map (\<lambda>s. s / 2) (map speed (pacmanCharacters (addCompletionEffect rnd a)))"
    unfolding speeds_revert speeds_between ..
  also have "\<dots> = map speed (pacmanCharacters a)"
    unfolding doubled by (simp add: comp_def)
  finally have restored: "map speed (pacmanCharacters
         (runCallback CompletionRevert (fold (occur atan2) between (addCompletionEffect rnd a)))) =
       map speed (pacmanCharacters a)" .
  have undone: "pacmanCharacters (runCallback CompletionRevert (addCompletionEffect rnd a)) =
       pacmanCharacters a"
    by (simp add: addCompletionEffect_def Let_def comp_def)
  show ?thesis
    using doubled restored undone
    by (simp add: addCompletionEffect_def Let_def comp_def length_fold_push)
qed


section \<open>Generation of the target text\<close>

lemma randomIndex_less: "0 < n \<Longrightarrow> randomIndex r n < n"
proof -
  assume pos: "0 < n"
  have r: "0 \<le> Rep_random r" "Rep_random r < 1"
    using Rep_random [of r] by auto
  have "Rep_random r * of_nat n < of_nat n"
    using r pos by simp
  then have "\<lfloor>Rep_random r * of_nat n\<rfloor> < int n"
    by (simp add: floor_less_iff)
  moreover have "0 \<le> \<lfloor>Rep_random r * of_nat n\<rfloor>"
    using r by simp
  ultimately show ?thesis
    by (simp add: randomIndex_def nat_less_iff)
qed

lemma mset_splice:
  "i < length xs \<Longrightarrow> add_mset (xs ! i) (mset (take i xs @ drop (Suc i) xs)) = mset xs"
proof -
  assume "i < length xs"
  then have "xs = take i xs @ xs ! i # drop (Suc i) xs"
    by (rule id_take_nth_drop)
  then have "mset xs = mset (take i xs @ xs ! i # drop (Suc i) xs)"
    by simp
  then show ?thesis
    by simp
qed

lemma accumulated_simps [simp]:
  "accumulated [] = 0"
  "accumulated (p # ps) = int (length p) + 1 + accumulated ps"
  "accumulated (ps @ qs) = accumulated ps + accumulated qs"
  by (simp_all add: accumulated_def)

lemma addWords_result:
  assumes "addWords rnd T ws (k, cl, tp) = (k', cl', tp')"
  shows "\<exists>drawn. tp' = tp @ drawn \<and> k' = k + length drawn \<and> cl' = cl + accumulated drawn
           \<and> (\<forall>j<length drawn. drawn ! j = ws ! randomIndex (rnd (k + j)) (length ws))
           \<and> set drawn \<subseteq> set ws
           \<and> (\<forall>j<length drawn. cl + accumulated (take j drawn) < T)
           \<and> (T \<le> cl' \<or> ws = [])"
  using assms
proof (induction rnd T ws "(k, cl, tp)" arbitrary: k cl tp rule: addWords.induct)
  case (1 rnd T ws k cl tp)
  show ?case
  proof (cases "cl < T \<and> length ws > 0")
    case False
    have "addWords rnd T ws (k, cl, tp) = (k, cl, tp)"
      by (subst addWords.simps) (simp only: False if_False)
    then have "(k', cl', tp') = (k, cl, tp)"
      using "1.prems" by simp
    then show ?thesis
      using False by (intro exI [of _ "[]"]) auto
  next
    case True
    define w where "w = ws ! randomIndex (rnd k) (length ws)"
    have call: "addWords rnd T ws (Suc k, cl + int (length w) + 1, tp @ [w]) = (k', cl', tp')"
      using "1.prems" True by (simp add: addWords.simps w_def Let_def)
    from "1.hyps" [OF True w_def call]
    obtain drawn where d: "tp' = (tp @ [w]) @ drawn" "k' = Suc k + length drawn"
      "cl' = cl + int (length w) + 1 + accumulated drawn"
      "\<forall>j<length drawn. drawn ! j = ws ! randomIndex (rnd (Suc k + j)) (length ws)"
      "\<forall>j<length drawn. cl + int (length w) + 1 + accumulated (take j drawn) < T"
      "T \<le> cl' \<or> ws = []" "set drawn \<subseteq> set ws"
      by blast
    have mem: "w \<in> set ws"
      using True by (simp add: w_def randomIndex_less)
    have idx: "(w # drawn) ! j = ws ! randomIndex (rnd (k + j)) (length ws)"
      if "j < length (w # drawn)" for j
      using that d(4) by (cases j) (simp_all add: w_def)
    have below: "cl + accumulated (take j (w # drawn)) < T"
      if "j < length (w # drawn)" for j
      using that d(5) True by (cases j) (simp_all add: add.assoc)
    show ?thesis
      using d(1,2,3,6,7) idx below mem
      by (intro exI [of _ "w # drawn"]) (simp add: add.assoc)
  qed
qed


lemma Rep_always_zero [simp]: "Rep_random (always_zero k) = 0"
  by (simp add: always_zero_def Abs_random_inverse)

lemma easy_text:
  "currentText (state (generateTestText always_zero easy_minute)) =
     ''The cat runs fast. Dogs like to play. Sun is very bright. I love to read books. Birds fly in the sky. cat cat cat cat cat cat cat cat cat cat cat cat cat cat cat cat cat cat cat cat cat cat cat cat cat''"
  by (simp add: generateTestText_def easy_minute_def TypingTestManager_def merge_def
      difficulties_def Let_def addSentences.simps addWords.simps randomIndex_def)


lemma join_spaces: "join parts = joinedWithSpaces parts"
proof (induction parts rule: join.induct)
  case 1
  show ?case by (simp add: joinedWithSpaces_def)
next
  case (2 p)
  show ?case by (simp add: joinedWithSpaces_def)
next
  case (3 p q ps)
  then show ?case by (simp add: joinedWithSpaces_def)
qed

lemma chosen_randomIndex: "randomIndex r n = chosen r n"
  by (simp add: randomIndex_def chosen_def)

lemma chosen_cell:
  assumes "i < n"
  shows "chosen r n = i \<longleftrightarrow>
           of_nat i / of_nat n \<le> Rep_random r \<and> Rep_random r < of_nat (Suc i) / of_nat n"
proof -
  have n: "(0::rat) < of_nat n"
    using assms by simp
  have r: "0 \<le> Rep_random r"
    using Rep_random [of r] by simp
  have nonneg: "0 \<le> \<lfloor>Rep_random r * of_nat n\<rfloor>"
    using r by simp
  have "chosen r n = i \<longleftrightarrow> \<lfloor>Rep_random r * of_nat n\<rfloor> = int i"
    using nonneg by (auto simp add: chosen_def)
  also have "\<dots> \<longleftrightarrow> of_nat i \<le> Rep_random r * of_nat n
                    \<and> Rep_random r * of_nat n < of_nat i + 1"
    by (simp add: floor_eq_iff)
  also have "\<dots> \<longleftrightarrow> of_nat i / of_nat n \<le> Rep_random r
                    \<and> Rep_random r < of_nat (Suc i) / of_nat n"
    using n by (simp add: pos_divide_le_eq pos_less_divide_eq add.commute)
  finally show ?thesis .
qed

lemma length_drawnWithout [simp]:
  "length (drawnWithoutReplacement rnd k n pool) = n"
  by (induction n arbitrary: k pool) simp_all

lemma take_drawnWithout:
  "j \<le> n \<Longrightarrow> take j (drawnWithoutReplacement rnd k n pool) = drawnWithoutReplacement rnd k j pool"
proof (induction n arbitrary: j k pool)
  case 0
  then show ?case by simp
next
  case (Suc n)
  then show ?case by (cases j) simp_all
qed

lemma take_drawnWith:
  "j \<le> w \<Longrightarrow> take j (drawnWithReplacement rnd k w pool) = drawnWithReplacement rnd k j pool"
  by (simp add: drawnWithReplacement_def take_map min_def)

lemma addSentences_draws:
  assumes "addSentences rnd T (k, pend, cl, tp) = (k', rest, cl', tp')"
  shows "\<exists>n\<le>length pend. tp' = tp @ drawnWithoutReplacement rnd k n pend
           \<and> k' = k + n
           \<and> cl' = cl + accumulated (drawnWithoutReplacement rnd k n pend)
           \<and> mset (drawnWithoutReplacement rnd k n pend) + mset rest = mset pend
           \<and> (\<forall>j<n. (of_int (cl + accumulated (drawnWithoutReplacement rnd k j pend)) :: rat)
                       < of_int T * (6 / 10))
           \<and> ((of_int T :: rat) * (6 / 10) \<le> of_int cl' \<or> n = length pend)"
  using assms
proof (induction rnd T "(k, pend, cl, tp)" arbitrary: k pend cl tp rule: addSentences.induct)
  case (1 rnd T k pend cl tp)
  show ?case
  proof (cases "(of_int cl :: rat) < of_int T * (6 / 10) \<and> length pend > 0")
    case False
    have "addSentences rnd T (k, pend, cl, tp) = (k, pend, cl, tp)"
      by (subst addSentences.simps) (simp only: False if_False)
    then have "(k', rest, cl', tp') = (k, pend, cl, tp)"
      using "1.prems" by simp
    then show ?thesis
      using False by (intro exI [of _ 0]) auto
  next
    case True
    define i where "i = randomIndex (rnd k) (length pend)"
    define spliced where "spliced = take i pend @ drop (Suc i) pend"
    have i: "i < length pend"
      using True by (simp add: i_def randomIndex_less)
    have ch: "chosen (rnd k) (length pend) = i"
      by (simp add: i_def chosen_randomIndex)
    have len: "length spliced = length pend - 1"
      using i by (simp add: spliced_def)
    have call: "addSentences rnd T (Suc k, take i pend @ drop (Suc i) pend,
                  cl + int (length (pend ! i)) + 1, tp @ [pend ! i]) = (k', rest, cl', tp')"
      using "1.prems" True by (subst (asm) addSentences.simps) (simp add: i_def Let_def)
    from "1.hyps" [OF True i_def refl call]
    obtain n where n: "n \<le> length spliced"
      "tp' = (tp @ [pend ! i]) @ drawnWithoutReplacement rnd (Suc k) n spliced"
      "k' = Suc k + n"
      "cl' = cl + int (length (pend ! i)) + 1
               + accumulated (drawnWithoutReplacement rnd (Suc k) n spliced)"
      "mset (drawnWithoutReplacement rnd (Suc k) n spliced) + mset rest = mset spliced"
      "\<forall>j<n. (of_int (cl + int (length (pend ! i)) + 1
                  + accumulated (drawnWithoutReplacement rnd (Suc k) j spliced)) :: rat)
               < of_int T * (6 / 10)"
      "(of_int T :: rat) * (6 / 10) \<le> of_int cl' \<or> n = length spliced"
      unfolding spliced_def by blast
    have unfold: "drawnWithoutReplacement rnd k (Suc j) pend =
                    pend ! i # drawnWithoutReplacement rnd (Suc k) j spliced" for j
      by (simp add: ch spliced_def)
    have below: "(of_int (cl + accumulated (drawnWithoutReplacement rnd k j pend)) :: rat)
                   < of_int T * (6 / 10)"
      if "j < Suc n" for j
    proof (cases j)
      case 0
      then show ?thesis using True by simp
    next
      case (Suc j')
      then have "j' < n"
        using that by simp
      then show ?thesis
        unfolding Suc unfold using n(6) by (simp add: add.assoc)
    qed
    have ms: "mset (drawnWithoutReplacement rnd k (Suc n) pend) + mset rest = mset pend"
      unfolding unfold using n(5) mset_splice [OF i] by (simp add: spliced_def)
    have "Suc n \<le> length pend"
      using n(1) len i by simp
    moreover have "(of_int T :: rat) * (6 / 10) \<le> of_int cl' \<or> Suc n = length pend"
      using n(7) len i by auto
    ultimately show ?thesis
      using n(2,3,4) below ms
      by (intro exI [of _ "Suc n"]) (simp add: add.assoc ch spliced_def)
  qed
qed


lemma addWords_draws:
  assumes "addWords rnd T ws (k, cl, tp) = (k', cl', tp')"
  shows "\<exists>w. tp' = tp @ drawnWithReplacement rnd k w ws
           \<and> k' = k + w
           \<and> cl' = cl + accumulated (drawnWithReplacement rnd k w ws)
           \<and> set (drawnWithReplacement rnd k w ws) \<subseteq> set ws
           \<and> (\<forall>j<w. cl + accumulated (drawnWithReplacement rnd k j ws) < T)
           \<and> (T \<le> cl' \<or> ws = [])"
proof -
  from addWords_result [OF assms]
  obtain drawn where d: "tp' = tp @ drawn" "k' = k + length drawn"
    "cl' = cl + accumulated drawn"
    "\<forall>j<length drawn. drawn ! j = ws ! randomIndex (rnd (k + j)) (length ws)"
    "set drawn \<subseteq> set ws"
    "\<forall>j<length drawn. cl + accumulated (take j drawn) < T"
    "T \<le> cl' \<or> ws = []"
    by blast
  define w where "w = length drawn"
  have eq: "drawn = drawnWithReplacement rnd k w ws"
  proof (rule nth_equalityI)
    show "length drawn = length (drawnWithReplacement rnd k w ws)"
      by (simp add: drawnWithReplacement_def w_def)
    fix j
    assume "j < length drawn"
    then show "drawn ! j = drawnWithReplacement rnd k w ws ! j"
      using d(4) by (simp add: drawnWithReplacement_def chosen_randomIndex w_def)
  qed
  have pre: "cl + accumulated (drawnWithReplacement rnd k j ws) < T" if "j < w" for j
  proof -
    have "take j drawn = drawnWithReplacement rnd k j ws"
      by (subst eq) (rule take_drawnWith, use that in simp)
    moreover have "cl + accumulated (take j drawn) < T"
      using d(6) that by (simp add: w_def)
    ultimately show ?thesis
      by simp
  qed
  have "tp' = tp @ drawnWithReplacement rnd k w ws"
    using d(1) eq by simp
  moreover have "k' = k + w"
    using d(2) by (simp add: w_def)
  moreover have "cl' = cl + accumulated (drawnWithReplacement rnd k w ws)"
    using d(3) eq by simp
  moreover have "set (drawnWithReplacement rnd k w ws) \<subseteq> set ws"
    using d(5) eq by simp
  ultimately show ?thesis
    using pre d(7) by blast
qed


lemma Rep_always_half [simp]: "Rep_random (always_half k) = 1 / 2"
  by (simp add: always_half_def Abs_random_inverse)


lemma randomIndex_always_half: "randomIndex (always_half k) n = n div 2"
proof -
  have "\<lfloor>(of_nat n :: rat) / of_nat 2\<rfloor> = int (n div 2)"
    by (rule floor_divide_of_nat_eq)
  then show ?thesis
    by (simp add: randomIndex_def)
qed

lemma easy_text_half:
  "currentText (state (generateTestText always_half easy_minute)) =
     ''Sun is very bright. I love to read books. Dogs like to play. Birds fly in the sky. The cat runs fast. toy toy toy toy toy toy toy toy toy toy toy toy toy toy toy toy toy toy toy toy toy toy toy toy toy''"
  by (simp add: generateTestText_def easy_minute_def TypingTestManager_def merge_def
      difficulties_def Let_def addSentences.simps addWords.simps randomIndex_always_half)


text \<open>
  Claim C3. For a configuration whose mode is not \<^verbatim>\<open>code\<close>, \<^verbatim>\<open>generateTestText\<close> returns
  and sets the target text to the parts drawn, joined by single spaces in the order drawn:
  first \<open>n\<close> sentences, then \<open>w\<close> words. The target length is \<open>40 * time * 5\<close>, with
  the time in minutes. The sentences are drawn at random without replacement from the
  sentence pool of the difficulty: each by the next random number, out of the sentences not
  drawn yet, and only while the accumulated length is below 60% of the target length; the
  drawing stops when that mark is reached or no sentence is left. Then the words are drawn
  at random with replacement: each by the next random number out of the whole word pool,
  and only while the accumulated length is below the target length; the drawing stops when
  the target length is met or the word pool is empty. Pools that run out give a shorter
  text, nothing else. These conditions fix \<open>n\<close>, \<open>w\<close> and with them the text. The last
  line says what a draw by a random number is: the item whose cell contains the number.
\<close>

theorem generated_words_text:
  assumes "mode (config m) \<noteq> ''code''"
  shows "(\<exists>n w.
      n \<le> length (sentences (chosenPool (config m)))
    \<and> currentText (state (generateTestText rnd m)) =
        joinedWithSpaces (drawnWithoutReplacement rnd 0 n (sentences (chosenPool (config m)))
           @ drawnWithReplacement rnd n w (words (chosenPool (config m))))
    \<and> mset (drawnWithoutReplacement rnd 0 n (sentences (chosenPool (config m))))
          \<subseteq># mset (sentences (chosenPool (config m)))
    \<and> (\<forall>j<n.
          (of_int (accumulated
                     (drawnWithoutReplacement rnd 0 j (sentences (chosenPool (config m))))) :: rat)
            < of_int (targetLength (config m)) * (6 / 10))
    \<and> ((of_int (targetLength (config m)) :: rat) * (6 / 10)
            \<le> of_int (accumulated
                         (drawnWithoutReplacement rnd 0 n (sentences (chosenPool (config m)))))
        \<or> n = length (sentences (chosenPool (config m))))
    \<and> set (drawnWithReplacement rnd n w (words (chosenPool (config m))))
          \<subseteq> set (words (chosenPool (config m)))
    \<and> (\<forall>j<w.
          accumulated (drawnWithoutReplacement rnd 0 n (sentences (chosenPool (config m))))
          + accumulated (drawnWithReplacement rnd n j (words (chosenPool (config m))))
            < targetLength (config m))
    \<and> (targetLength (config m)
            \<le> accumulated (drawnWithoutReplacement rnd 0 n (sentences (chosenPool (config m))))
              + accumulated (drawnWithReplacement rnd n w (words (chosenPool (config m))))
        \<or> words (chosenPool (config m)) = []))
    \<and> (i < c \<longrightarrow>
          (chosen r c = i \<longleftrightarrow>
             of_nat i / of_nat c \<le> Rep_random r \<and> Rep_random r < of_nat (Suc i) / of_nat c))"
proof -
  define T where "T = targetLength (config m)"
  define S where "S = sentences (chosenPool (config m))"
  define W where "W = words (chosenPool (config m))"
  obtain k1 rest l1 ss where first: "addSentences rnd T (0, S, 0, []) = (k1, rest, l1, ss)"
    by (cases "addSentences rnd T (0, S, 0, [])") blast
  obtain k2 l2 parts where second: "addWords rnd T W (k1, l1, ss) = (k2, l2, parts)"
    by (cases "addWords rnd T W (k1, l1, ss)") blast
  have "currentText (state (generateTestText rnd m)) = join parts"
    using assms first second
    by (simp add: generateTestText_def Let_def T_def S_def W_def targetLength_def
        chosenPool_def)
  then have generated: "currentText (state (generateTestText rnd m)) = joinedWithSpaces parts"
    by (simp add: join_spaces)
  from addSentences_draws [OF first]
  obtain n where n: "n \<le> length S" "ss = drawnWithoutReplacement rnd 0 n S" "k1 = n"
    "l1 = accumulated (drawnWithoutReplacement rnd 0 n S)"
    "mset (drawnWithoutReplacement rnd 0 n S) + mset rest = mset S"
    "\<forall>j<n. (of_int (accumulated (drawnWithoutReplacement rnd 0 j S)) :: rat)
               < of_int T * (6 / 10)"
    "(of_int T :: rat) * (6 / 10) \<le> of_int l1 \<or> n = length S"
    by auto
  from addWords_draws [OF second]
  obtain w where w: "parts = ss @ drawnWithReplacement rnd k1 w W"
    "l2 = l1 + accumulated (drawnWithReplacement rnd k1 w W)"
    "set (drawnWithReplacement rnd k1 w W) \<subseteq> set W"
    "\<forall>j<w. l1 + accumulated (drawnWithReplacement rnd k1 j W) < T"
    "T \<le> l2 \<or> W = []"
    by blast
  have sub: "mset (drawnWithoutReplacement rnd 0 n S) \<subseteq># mset S"
    using n(5) by (metis mset_subset_eq_add_left)
  have "\<exists>n w.
      n \<le> length S
    \<and> currentText (state (generateTestText rnd m)) =
        joinedWithSpaces (drawnWithoutReplacement rnd 0 n S @ drawnWithReplacement rnd n w W)
    \<and> mset (drawnWithoutReplacement rnd 0 n S) \<subseteq># mset S
    \<and> (\<forall>j<n. (of_int (accumulated (drawnWithoutReplacement rnd 0 j S)) :: rat)
                 < of_int T * (6 / 10))
    \<and> ((of_int T :: rat) * (6 / 10)
            \<le> of_int (accumulated (drawnWithoutReplacement rnd 0 n S))
        \<or> n = length S)
    \<and> set (drawnWithReplacement rnd n w W) \<subseteq> set W
    \<and> (\<forall>j<w. accumulated (drawnWithoutReplacement rnd 0 n S)
                + accumulated (drawnWithReplacement rnd n j W) < T)
    \<and> (T \<le> accumulated (drawnWithoutReplacement rnd 0 n S)
              + accumulated (drawnWithReplacement rnd n w W)
        \<or> W = [])"
    using generated n(1,6,7) sub w unfolding n(2,3,4)
    by (intro exI [of _ n] exI [of _ w]) simp
  then show ?thesis
    unfolding T_def S_def W_def using chosen_cell [of i c r] by blast
qed

theorem generated_words_text_witness:
  "mode (config easy_minute) \<noteq> ''code''
   \<and> currentText (state (generateTestText always_zero easy_minute)) =
       ''The cat runs fast. Dogs like to play. Sun is very bright. I love to read books. Birds fly in the sky. cat cat cat cat cat cat cat cat cat cat cat cat cat cat cat cat cat cat cat cat cat cat cat cat cat''
   \<and> currentText (state (generateTestText always_half easy_minute)) =
       ''Sun is very bright. I love to read books. Dogs like to play. Birds fly in the sky. The cat runs fast. toy toy toy toy toy toy toy toy toy toy toy toy toy toy toy toy toy toy toy toy toy toy toy toy toy''
   \<and> chosen (always_half 0) 5 = 2
   \<and>
  (\<exists>n w.
      n \<le> length (sentences (chosenPool (config easy_minute)))
    \<and> currentText (state (generateTestText always_zero easy_minute)) =
        joinedWithSpaces (drawnWithoutReplacement always_zero 0 n (sentences (chosenPool (config easy_minute)))
           @ drawnWithReplacement always_zero n w (words (chosenPool (config easy_minute))))
    \<and> mset (drawnWithoutReplacement always_zero 0 n (sentences (chosenPool (config easy_minute))))
          \<subseteq># mset (sentences (chosenPool (config easy_minute)))
    \<and> (\<forall>j<n.
          (of_int (accumulated
                     (drawnWithoutReplacement always_zero 0 j (sentences (chosenPool (config easy_minute))))) :: rat)
            < of_int (targetLength (config easy_minute)) * (6 / 10))
    \<and> ((of_int (targetLength (config easy_minute)) :: rat) * (6 / 10)
            \<le> of_int (accumulated
                         (drawnWithoutReplacement always_zero 0 n (sentences (chosenPool (config easy_minute)))))
        \<or> n = length (sentences (chosenPool (config easy_minute))))
    \<and> set (drawnWithReplacement always_zero n w (words (chosenPool (config easy_minute))))
          \<subseteq> set (words (chosenPool (config easy_minute)))
    \<and> (\<forall>j<w.
          accumulated (drawnWithoutReplacement always_zero 0 n (sentences (chosenPool (config easy_minute))))
          + accumulated (drawnWithReplacement always_zero n j (words (chosenPool (config easy_minute))))
            < targetLength (config easy_minute))
    \<and> (targetLength (config easy_minute)
            \<le> accumulated (drawnWithoutReplacement always_zero 0 n (sentences (chosenPool (config easy_minute))))
              + accumulated (drawnWithReplacement always_zero n w (words (chosenPool (config easy_minute))))
        \<or> words (chosenPool (config easy_minute)) = []))
   \<and>
  (\<exists>n w.
      n \<le> length (sentences (chosenPool (config easy_minute)))
    \<and> currentText (state (generateTestText always_half easy_minute)) =
        joinedWithSpaces (drawnWithoutReplacement always_half 0 n (sentences (chosenPool (config easy_minute)))
           @ drawnWithReplacement always_half n w (words (chosenPool (config easy_minute))))
    \<and> mset (drawnWithoutReplacement always_half 0 n (sentences (chosenPool (config easy_minute))))
          \<subseteq># mset (sentences (chosenPool (config easy_minute)))
    \<and> (\<forall>j<n.
          (of_int (accumulated
                     (drawnWithoutReplacement always_half 0 j (sentences (chosenPool (config easy_minute))))) :: rat)
            < of_int (targetLength (config easy_minute)) * (6 / 10))
    \<and> ((of_int (targetLength (config easy_minute)) :: rat) * (6 / 10)
            \<le> of_int (accumulated
                         (drawnWithoutReplacement always_half 0 n (sentences (chosenPool (config easy_minute)))))
        \<or> n = length (sentences (chosenPool (config easy_minute))))
    \<and> set (drawnWithReplacement always_half n w (words (chosenPool (config easy_minute))))
          \<subseteq> set (words (chosenPool (config easy_minute)))
    \<and> (\<forall>j<w.
          accumulated (drawnWithoutReplacement always_half 0 n (sentences (chosenPool (config easy_minute))))
          + accumulated (drawnWithReplacement always_half n j (words (chosenPool (config easy_minute))))
            < targetLength (config easy_minute))
    \<and> (targetLength (config easy_minute)
            \<le> accumulated (drawnWithoutReplacement always_half 0 n (sentences (chosenPool (config easy_minute))))
              + accumulated (drawnWithReplacement always_half n w (words (chosenPool (config easy_minute))))
        \<or> words (chosenPool (config easy_minute)) = []))"
proof -
  have h: "mode (config easy_minute) \<noteq> ''code''"
    by (simp add: easy_minute_def TypingTestManager_def merge_def)
  have c: "chosen (always_half 0) 5 = 2"
    using randomIndex_always_half [of 0 5] by (simp add: chosen_randomIndex)
  show ?thesis
    using h c easy_text easy_text_half
      generated_words_text [OF h, of always_zero 2 5 "always_half 0", THEN conjunct1]
      generated_words_text [OF h, of always_half 2 5 "always_half 0", THEN conjunct1]
    by (intro conjI)
qed


end
